theory Spec2Isabelle
  imports Main "HOL-Library.Word"
begin

unbundle bit_operations_syntax

section \<open>Machine types and byte order\<close>

type_synonym u8 = "8 word"
type_synonym u16 = "16 word"
type_synonym u32 = "32 word"
type_synonym u64 = "64 word"

text \<open>The size macros of the platform headers (\<^verbatim>\<open>_1K\<close>, \<^verbatim>\<open>_4K\<close>, \<^verbatim>\<open>_1M\<close>, \<^verbatim>\<open>_64M\<close>).\<close>

definition SZ_1K :: nat where "SZ_1K = 1024"
definition SZ_4K :: nat where "SZ_4K = 4096"
definition SZ_1M :: u32 where "SZ_1M = 0x00100000"
definition SZ_64M :: u32 where "SZ_64M = 0x04000000"

text \<open>Little-endian images of 16, 32 and 64 bit values, and the reads back from a byte
  buffer. A buffer is a function from the byte index to the byte, so that an index past the
  declared size of a C array is the memory that follows the array.\<close>

definition le16 :: "u16 \<Rightarrow> u8 list" where
  "le16 w = [ucast w, ucast (drop_bit 8 w)]"

definition le32 :: "u32 \<Rightarrow> u8 list" where
  "le32 w = [ucast w, ucast (drop_bit 8 w), ucast (drop_bit 16 w), ucast (drop_bit 24 w)]"

definition le64 :: "u64 \<Rightarrow> u8 list" where
  "le64 w = [ucast w, ucast (drop_bit 8 w), ucast (drop_bit 16 w), ucast (drop_bit 24 w),
             ucast (drop_bit 32 w), ucast (drop_bit 40 w), ucast (drop_bit 48 w),
             ucast (drop_bit 56 w)]"

definition rd16 :: "(nat \<Rightarrow> u8) \<Rightarrow> nat \<Rightarrow> u16" where
  "rd16 b i = ucast (b i) OR push_bit 8 (ucast (b (i + 1)))"

definition rd32 :: "(nat \<Rightarrow> u8) \<Rightarrow> nat \<Rightarrow> u32" where
  "rd32 b i = ucast (b i) OR push_bit 8 (ucast (b (i + 1))) OR push_bit 16 (ucast (b (i + 2)))
                OR push_bit 24 (ucast (b (i + 3)))"

definition rd64 :: "(nat \<Rightarrow> u8) \<Rightarrow> nat \<Rightarrow> u64" where
  "rd64 b i = ucast (rd32 b i) OR push_bit 32 (ucast (rd32 b (i + 4)))"

definition buf_bytes :: "(nat \<Rightarrow> u8) \<Rightarrow> nat \<Rightarrow> nat \<Rightarrow> u8 list" where
  "buf_bytes b off n = map b [off ..< off + n]"

definition buf_write :: "(nat \<Rightarrow> u8) \<Rightarrow> nat \<Rightarrow> u8 list \<Rightarrow> (nat \<Rightarrow> u8)" where
  "buf_write b off bs = (\<lambda>i. if off \<le> i \<and> i < off + length bs then bs ! (i - off) else b i)"

section \<open>Declarations of the headers the stub includes\<close>

text \<open>
  \<^verbatim>\<open>err.h\<close>, \<^verbatim>\<open>types.h\<close> and \<^verbatim>\<open>psp-stub/psp-serial-stub.h\<close> are not among the sources. The
  values of their constants are parameters of the model: every function of the stub takes the
  record \<open>K\<close> of them. \<^verbatim>\<open>INF_SUCCESS\<close> alone is fixed by \<^verbatim>\<open>main.c\<close> itself, which tests
  \<^verbatim>\<open>!rc\<close> and \<^verbatim>\<open>rc == INF_SUCCESS\<close> for the same thing. Status codes are C \<^verbatim>\<open>int\<close>s, kept as
  32-bit words (\<open>-1\<close> is \<open>0xffffffff\<close>). \<^verbatim>\<open>PSPSERIALPDURRNID_RESPONSE_PSP_MMIO_READ\<close> and
  \<^verbatim>\<open>..._WRITE\<close> are not mentioned by \<^verbatim>\<open>main.c\<close>; they are the response constants of the
  \<^verbatim>\<open>PSP_MMIO\<close> requests in the tag enumeration of the specification.
\<close>

record PSPDEFS =
  PSP_SERIAL_EXT_2_PSP_PDU_START_MAGIC :: u32
  PSP_SERIAL_EXT_2_PSP_PDU_END_MAGIC :: u32
  PSP_SERIAL_PSP_2_EXT_PDU_START_MAGIC :: u32
  PSP_SERIAL_PSP_2_EXT_PDU_END_MAGIC :: u32
  NIL_X86PADDR :: u64
  INF_TRY_AGAIN :: u32
  ERR_INVALID_PARAMETER :: u32
  ERR_INVALID_STATE :: u32
  PSPSERIALPDURRNID_INVALID :: u16
  PSPSERIALPDURRNID_REQUEST_FIRST :: u16
  PSPSERIALPDURRNID_REQUEST_CONNECT :: u16
  PSPSERIALPDURRNID_REQUEST_PSP_MEM_READ :: u16
  PSPSERIALPDURRNID_REQUEST_PSP_MEM_WRITE :: u16
  PSPSERIALPDURRNID_REQUEST_PSP_MMIO_READ :: u16
  PSPSERIALPDURRNID_REQUEST_PSP_MMIO_WRITE :: u16
  PSPSERIALPDURRNID_REQUEST_PSP_SMN_READ :: u16
  PSPSERIALPDURRNID_REQUEST_PSP_SMN_WRITE :: u16
  PSPSERIALPDURRNID_REQUEST_PSP_X86_MEM_READ :: u16
  PSPSERIALPDURRNID_REQUEST_PSP_X86_MEM_WRITE :: u16
  PSPSERIALPDURRNID_REQUEST_PSP_X86_MMIO_READ :: u16
  PSPSERIALPDURRNID_REQUEST_PSP_X86_MMIO_WRITE :: u16
  PSPSERIALPDURRNID_REQUEST_INVALID_FIRST :: u16
  PSPSERIALPDURRNID_RESPONSE_CONNECT :: u16
  PSPSERIALPDURRNID_RESPONSE_PSP_MEM_READ :: u16
  PSPSERIALPDURRNID_RESPONSE_PSP_MEM_WRITE :: u16
  PSPSERIALPDURRNID_RESPONSE_PSP_MMIO_READ :: u16
  PSPSERIALPDURRNID_RESPONSE_PSP_MMIO_WRITE :: u16
  PSPSERIALPDURRNID_RESPONSE_PSP_SMN_READ :: u16
  PSPSERIALPDURRNID_RESPONSE_PSP_SMN_WRITE :: u16
  PSPSERIALPDURRNID_RESPONSE_PSP_X86_MEM_READ :: u16
  PSPSERIALPDURRNID_RESPONSE_PSP_X86_MEM_WRITE :: u16
  PSPSERIALPDURRNID_RESPONSE_PSP_X86_MMIO_READ :: u16
  PSPSERIALPDURRNID_RESPONSE_PSP_X86_MMIO_WRITE :: u16
  PSPSERIALPDURRNID_NOTIFICATION_BEACON :: u16
  PSPSERIALPDURRNID_NOTIFICATION_LOG_MSG :: u16

definition INF_SUCCESS :: u32 where
  "INF_SUCCESS = 0"

text \<open>\<^verbatim>\<open>PSP_SERIAL_STUB_INDEFINITE_WAIT\<close> (main.c, line 36).\<close>

definition PSP_SERIAL_STUB_INDEFINITE_WAIT :: u32 where
  "PSP_SERIAL_STUB_INDEFINITE_WAIT = 0xffffffff"

subsection \<open>The PDU header and footer\<close>

text \<open>
  Modelled from the spec: \<^verbatim>\<open>PSPSERIALPDUHDR\<close> and \<^verbatim>\<open>PSPSERIALPDUFOOTER\<close> are declared in
  \<^verbatim>\<open>psp-stub/psp-serial-stub.h\<close>, which is not among the sources. The fields, their order and
  their sizes are those of the wire table of the specification (section 6): start magic (4
  bytes, offset 0), payload length (4, offset 4), PDU counter (4, offset 8), tag (2, offset
  12), unit id (2, offset 14), request status code (4, offset 16), timestamp (4, offset 20);
  the footer is the checksum (4) and the end magic (4). \<^verbatim>\<open>main.c\<close> fixes the shape: the start
  magic is the member \<^verbatim>\<open>u32Magic\<close>, every other field lives in the member \<^verbatim>\<open>u\<close>, a union of
  the structure \<^verbatim>\<open>Fields\<close> and the byte array \<^verbatim>\<open>ab\<close>. So \<^verbatim>\<open>u.ab\<close> is the bytes of the fields
  after the start magic.
\<close>

record PSPSERIALPDUHDR =
  u32Magic :: u32
  cbPdu :: u32
  cPdus :: u32
  enmRrnId :: u16
  idCcd :: u16
  rcReq :: u32
  tsMillies :: u32

record PSPSERIALPDUFOOTER =
  u32ChkSum :: u32
  u32MagicEnd :: u32

definition sizeof_PSPSERIALPDUHDR :: nat where "sizeof_PSPSERIALPDUHDR = 24"
definition sizeof_PSPSERIALPDUFOOTER :: nat where "sizeof_PSPSERIALPDUFOOTER = 8"

text \<open>The byte view \<^verbatim>\<open>u.ab\<close> of a header, and the images of a header and a footer as
  \<^verbatim>\<open>PSPUartWrite\<close> sends them.\<close>

definition PduHdr_ab :: "PSPSERIALPDUHDR \<Rightarrow> u8 list" where
  "PduHdr_ab h = le32 (cbPdu h) @ le32 (cPdus h) @ le16 (enmRrnId h) @ le16 (idCcd h)
                   @ le32 (rcReq h) @ le32 (tsMillies h)"

definition PduHdr_bytes :: "PSPSERIALPDUHDR \<Rightarrow> u8 list" where
  "PduHdr_bytes h = le32 (u32Magic h) @ PduHdr_ab h"

definition PduFooter_bytes :: "PSPSERIALPDUFOOTER \<Rightarrow> u8 list" where
  "PduFooter_bytes f = le32 (u32ChkSum f) @ le32 (u32MagicEnd f)"

text \<open>The header and the footer that a pointer into a byte buffer points to.\<close>

definition PduHdr_at :: "(nat \<Rightarrow> u8) \<Rightarrow> nat \<Rightarrow> PSPSERIALPDUHDR" where
  "PduHdr_at b p = \<lparr>u32Magic = rd32 b p, cbPdu = rd32 b (p + 4), cPdus = rd32 b (p + 8),
                    enmRrnId = rd16 b (p + 12), idCcd = rd16 b (p + 14),
                    rcReq = rd32 b (p + 16), tsMillies = rd32 b (p + 20)\<rparr>"

definition PduHdr_ab_at :: "(nat \<Rightarrow> u8) \<Rightarrow> nat \<Rightarrow> u8 list" where
  "PduHdr_ab_at b p = buf_bytes b (p + 4) 20"

definition PduFooter_at :: "(nat \<Rightarrow> u8) \<Rightarrow> nat \<Rightarrow> PSPSERIALPDUFOOTER" where
  "PduFooter_at b p = \<lparr>u32ChkSum = rd32 b p, u32MagicEnd = rd32 b (p + 4)\<rparr>"

section \<open>The state of the stub and of the hardware around it\<close>

text \<open>\<^verbatim>\<open>PSPX86MAPPING\<close> and \<^verbatim>\<open>PSPSMNMAPPING\<close> (main.c, lines 60-88).\<close>

record PSPX86MAPPING =
  PhysX86AddrBase :: u64
  uMemType :: u32
  cRefs :: u32

record PSPSMNMAPPING =
  SmnAddrBase :: u32
  cSmnRefs :: u32

text \<open>\<^verbatim>\<open>PSPSERIALPDURECVSTATE\<close> (main.c, lines 110-122).\<close>

datatype PSPSERIALPDURECVSTATE =
    PSPSERIALPDURECVSTATE_INVALID
  | PSPSERIALPDURECVSTATE_HDR
  | PSPSERIALPDURECVSTATE_PAYLOAD
  | PSPSERIALPDURECVSTATE_FOOTER
  | PSPSERIALPDURECVSTATE_32BIT_HACK

text \<open>
  Modelled from the spec: the UART driver (\<^verbatim>\<open>uart.h\<close>: \<^verbatim>\<open>PSPUartGetDataAvail\<close>,
  \<^verbatim>\<open>PSPUartRead\<close>, \<^verbatim>\<open>PSPUartWrite\<close>) is not among the sources; the specification names its
  interface: byte-level send and receive, a data-available query, and writes that report an
  error. The serial line is part of the state: \<open>RxFifo\<close> holds the bytes that arrived and were
  not read yet, \<open>RxLine\<close> the bytes still on their way (one chunk reaches the FIFO at each
  data-available query), \<open>TxLine\<close> every byte written so far, \<open>RdStatus\<close> and \<open>WrStatus\<close> the
  status codes of the coming reads and writes (a read or a write past the end of its list
  succeeds). A failed read or write transfers nothing.
\<close>

record PSPUART =
  RxFifo :: "u8 list"
  RxLine :: "u8 list list"
  TxLine :: "u8 list"
  RdStatus :: "u32 list"
  WrStatus :: "u32 list"

definition PSPUartGetDataAvail :: "PSPUART \<Rightarrow> u32 \<times> PSPUART" where
  "PSPUartGetDataAvail u =
     (let u1 = (case RxLine u of [] \<Rightarrow> u
                | c # cs \<Rightarrow> u\<lparr>RxFifo := RxFifo u @ c, RxLine := cs\<rparr>)
      in (of_nat (length (RxFifo u1)), u1))"

definition PSPUartRead :: "PSPUART \<Rightarrow> nat \<Rightarrow> u32 \<times> u8 list \<times> PSPUART" where
  "PSPUartRead u cb =
     (let rc = (case RdStatus u of [] \<Rightarrow> 0 | r # rs \<Rightarrow> r);
          u1 = u\<lparr>RdStatus := tl (RdStatus u)\<rparr>
      in if rc = 0 then (0, take cb (RxFifo u1), u1\<lparr>RxFifo := drop cb (RxFifo u1)\<rparr>)
         else (rc, [], u1))"

definition PSPUartWrite :: "PSPUART \<Rightarrow> u8 list \<Rightarrow> u32 \<times> PSPUART" where
  "PSPUartWrite u bs =
     (let rc = (case WrStatus u of [] \<Rightarrow> 0 | r # rs \<Rightarrow> r);
          u1 = u\<lparr>WrStatus := tl (WrStatus u)\<rparr>
      in if rc = 0 then (0, u1\<lparr>TxLine := TxLine u1 @ bs\<rparr>) else (rc, u1))"

text \<open>
  Modelled from the spec: the tick manager (\<^verbatim>\<open>tm.h\<close>: \<^verbatim>\<open>TMTick\<close>, \<^verbatim>\<open>TMGetMillies\<close>) is not
  among the sources, and the 100 MHz counter is hardware. The specification exposes one
  observation of the timekeeper, \<open>millies()\<close>. The clock is part of the state: \<open>Millies\<close>
  gives the value of the n-th call of \<^verbatim>\<open>pspStubGetMillies\<close> since power on, \<open>cReads\<close> counts
  the calls made.
\<close>

record PSPTIMER =
  Millies :: "nat \<Rightarrow> u32"
  cReads :: nat

text \<open>
  \<^verbatim>\<open>PSPSTUBSTATE\<close> (main.c, lines 128-164), with the hardware the stub acts on: \<open>Mem\<close> is
  the byte-addressed 32-bit address space of the co-processor, \<open>RegWrites\<close> the 32-bit
  stores the mapping allocators issue to the slot control registers, in order, \<open>LogPending\<close>
  the buffers the logger flushes at each coming \<^verbatim>\<open>LogRel\<close>, and \<open>pabScratch\<close> the address
  \<^verbatim>\<open>&abScratch[0]\<close>. The arrays \<^verbatim>\<open>aX86MapSlots[15]\<close> and \<^verbatim>\<open>aSmnMapSlots[32]\<close> are lists.
\<close>

record PSPSTUBSTATE =
  Timer :: PSPTIMER
  Uart :: PSPUART
  aX86MapSlots :: "PSPX86MAPPING list"
  aSmnMapSlots :: "PSPSMNMAPPING list"
  cCcds :: u32
  fConnected :: bool
  cBeaconsSent :: u32
  cPdusSent :: u32
  cPduRecvNext :: u32
  enmPduRecvState :: PSPSERIALPDURECVSTATE
  cbPduRecvLeft :: u32
  offPduRecv :: u32
  abPdu :: "nat \<Rightarrow> u8"
  pabScratch :: u32
  Mem :: "u32 \<Rightarrow> u8"
  RegWrites :: "(u32 \<times> u32) list"
  LogPending :: "u8 list list list"

text \<open>What a call of the model gives: the function returns, or it is still polling when
  the fuel of its loops is used up, or it reads through a pointer that was never set.\<close>

datatype 'a result = Returns 'a | Spins | Faults

text \<open>Memory of the co-processor: byte runs, and the volatile 32-bit register accesses.\<close>

definition mem_bytes :: "(u32 \<Rightarrow> u8) \<Rightarrow> u32 \<Rightarrow> nat \<Rightarrow> u8 list" where
  "mem_bytes m a n = map (\<lambda>i. m (a + of_nat i)) [0 ..< n]"

definition mem_write :: "(u32 \<Rightarrow> u8) \<Rightarrow> u32 \<Rightarrow> u8 list \<Rightarrow> (u32 \<Rightarrow> u8)" where
  "mem_write m a bs = foldl (\<lambda>m' i. m'(a + of_nat i := bs ! i)) m [0 ..< length bs]"

definition reg_read32 :: "PSPSTUBSTATE \<Rightarrow> u32 \<Rightarrow> u32" where
  "reg_read32 s a = rd32 (\<lambda>i. Mem s (a + of_nat i)) 0"

definition reg_write32 :: "u32 \<Rightarrow> u32 \<Rightarrow> PSPSTUBSTATE \<Rightarrow> PSPSTUBSTATE" where
  "reg_write32 a v s = s\<lparr>Mem := mem_write (Mem s) a (le32 v), RegWrites := RegWrites s @ [(a, v)]\<rparr>"

section \<open>The mapping allocators\<close>

subsection \<open>\<^verbatim>\<open>pspStubX86PhysMap\<close> (main.c, lines 181-230)\<close>

text \<open>The condition of the probe loop for one slot, and the loop: the index of the first
  slot, from \<open>i\<close> on, that is empty or holds the same base with the same memory type.\<close>

definition x86_slot_candidate :: "PSPDEFS \<Rightarrow> u64 \<Rightarrow> u32 \<Rightarrow> PSPX86MAPPING \<Rightarrow> bool" where
  "x86_slot_candidate K Base MemType m \<longleftrightarrow>
     (PhysX86AddrBase m = NIL_X86PADDR K \<and> cRefs m = 0)
     \<or> (PhysX86AddrBase m = Base \<and> uMemType m = MemType)"

fun x86_slot_probe :: "PSPDEFS \<Rightarrow> u64 \<Rightarrow> u32 \<Rightarrow> PSPX86MAPPING list \<Rightarrow> nat \<Rightarrow> nat option" where
  "x86_slot_probe K Base MemType [] i = None"
| "x86_slot_probe K Base MemType (m # ms) i =
     (if x86_slot_candidate K Base MemType m then Some i
      else x86_slot_probe K Base MemType ms (Suc i))"

definition x86_slot_program :: "nat \<Rightarrow> u64 \<Rightarrow> u32 \<Rightarrow> PSPSTUBSTATE \<Rightarrow> PSPSTUBSTATE" where
  "x86_slot_program idxSlot Base MemType s =
     (let PspAddrSlotBase = 0x03230000 + of_nat idxSlot * 4 * 4;
          s1 = reg_write32 PspAddrSlotBase
                 (ucast (push_bit 6 (drop_bit 32 Base) OR (drop_bit 26 Base AND 0x3f))) s;
          s2 = reg_write32 (PspAddrSlotBase + 4) 0x12 s1;
          s3 = reg_write32 (PspAddrSlotBase + 8) MemType s2;
          s4 = reg_write32 (PspAddrSlotBase + 12) MemType s3;
          s5 = reg_write32 (0x032303e0 + of_nat idxSlot * 4) 0xffffffff s4
      in reg_write32 (0x032304d8 + of_nat idxSlot * 4) 0xc0000000 s5)"

definition pspStubX86PhysMap ::
    "PSPDEFS \<Rightarrow> PSPSTUBSTATE \<Rightarrow> u64 \<Rightarrow> bool \<Rightarrow> u32 \<times> u32 option \<times> PSPSTUBSTATE" where
  "pspStubX86PhysMap K pThis PhysX86Addr fMmio =
     (let MemType = (if fMmio then 0x6 else 0x4);
          Base = PhysX86Addr AND NOT (ucast SZ_64M - 1);
          offStart = (ucast (PhysX86Addr - Base) :: u32)
      in case x86_slot_probe K Base MemType (take 15 (aX86MapSlots pThis)) 0 of
           None \<Rightarrow> (ERR_INVALID_STATE K, None, pThis)
         | Some idxSlot \<Rightarrow>
             (let pMapping = aX86MapSlots pThis ! idxSlot;
                  fSetUp = (PhysX86AddrBase pMapping = NIL_X86PADDR K);
                  m1 = (if fSetUp then pMapping\<lparr>uMemType := MemType, PhysX86AddrBase := Base\<rparr>
                        else pMapping);
                  s1 = (if fSetUp then x86_slot_program idxSlot Base MemType pThis else pThis);
                  m2 = m1\<lparr>cRefs := cRefs m1 + 1\<rparr>
              in (INF_SUCCESS,
                  Some (0x04000000 + of_nat idxSlot * SZ_64M + offStart),
                  s1\<lparr>aX86MapSlots := (aX86MapSlots pThis)[idxSlot := m2]\<rparr>)))"

subsection \<open>\<^verbatim>\<open>pspStubX86PhysUnmapByPtr\<close> (main.c, lines 240-278)\<close>

definition x86_slot_clear :: "nat \<Rightarrow> PSPSTUBSTATE \<Rightarrow> PSPSTUBSTATE" where
  "x86_slot_clear idxSlot s =
     (let PspAddrSlotBase = 0x03230000 + of_nat idxSlot * 4 * 4;
          s1 = reg_write32 PspAddrSlotBase 0 s;
          s2 = reg_write32 (PspAddrSlotBase + 4) 0 s1;
          s3 = reg_write32 (PspAddrSlotBase + 8) 0 s2;
          s4 = reg_write32 (PspAddrSlotBase + 12) 0 s3;
          s5 = reg_write32 (0x032303e0 + of_nat idxSlot * 4) 0xffffffff s4
      in reg_write32 (0x032304d8 + of_nat idxSlot * 4) 0 s5)"

definition pspStubX86PhysUnmapByPtr :: "PSPDEFS \<Rightarrow> PSPSTUBSTATE \<Rightarrow> u32 \<Rightarrow> u32 \<times> PSPSTUBSTATE" where
  "pspStubX86PhysUnmapByPtr K pThis pv =
     (let PspAddrMapBase = (pv AND NOT (SZ_64M - 1)) - 0x04000000;
          idxSlot = unat (PspAddrMapBase div SZ_64M)
      in if idxSlot < 15 \<and> PspAddrMapBase mod SZ_64M = 0 then
           (let pMapping = aX86MapSlots pThis ! idxSlot
            in if cRefs pMapping > 0 then
                 (let m1 = pMapping\<lparr>cRefs := cRefs pMapping - 1\<rparr>
                  in if cRefs m1 = 0 then
                       (INF_SUCCESS,
                        (x86_slot_clear idxSlot pThis)
                          \<lparr>aX86MapSlots := (aX86MapSlots pThis)
                              [idxSlot := m1\<lparr>uMemType := 0, PhysX86AddrBase := NIL_X86PADDR K\<rparr>]\<rparr>)
                     else (INF_SUCCESS, pThis\<lparr>aX86MapSlots := (aX86MapSlots pThis)[idxSlot := m1]\<rparr>))
               else (ERR_INVALID_PARAMETER K, pThis))
         else (ERR_INVALID_PARAMETER K, pThis))"

subsection \<open>\<^verbatim>\<open>pspStubSmnPhysMap\<close> and \<^verbatim>\<open>pspStubSmnUnmapByPtr\<close> (main.c, lines 289-382)\<close>

definition smn_slot_candidate :: "u32 \<Rightarrow> PSPSMNMAPPING \<Rightarrow> bool" where
  "smn_slot_candidate Base m \<longleftrightarrow>
     (SmnAddrBase m = 0 \<and> cSmnRefs m = 0) \<or> SmnAddrBase m = Base"

fun smn_slot_probe :: "u32 \<Rightarrow> PSPSMNMAPPING list \<Rightarrow> nat \<Rightarrow> nat option" where
  "smn_slot_probe Base [] i = None"
| "smn_slot_probe Base (m # ms) i =
     (if smn_slot_candidate Base m then Some i else smn_slot_probe Base ms (Suc i))"

definition pspStubSmnPhysMap ::
    "PSPDEFS \<Rightarrow> PSPSTUBSTATE \<Rightarrow> u32 \<Rightarrow> u32 \<times> u32 option \<times> PSPSTUBSTATE" where
  "pspStubSmnPhysMap K pThis SmnAddr =
     (let Base = SmnAddr AND NOT (SZ_1M - 1);
          offStart = SmnAddr - Base
      in case smn_slot_probe Base (take 32 (aSmnMapSlots pThis)) 0 of
           None \<Rightarrow> (ERR_INVALID_STATE K, None, pThis)
         | Some idxSlot \<Rightarrow>
             (let pMapping = aSmnMapSlots pThis ! idxSlot;
                  fSetUp = (SmnAddrBase pMapping = 0);
                  m1 = (if fSetUp then pMapping\<lparr>SmnAddrBase := Base\<rparr> else pMapping);
                  PspAddrSlotBase = 0x03220000 + of_nat (idxSlot div 2) * 4;
                  u32RegSmnMapCtrl = reg_read32 pThis PspAddrSlotBase;
                  s1 = (if fSetUp then
                          reg_write32 PspAddrSlotBase
                            (if odd idxSlot
                             then u32RegSmnMapCtrl OR push_bit 16 (drop_bit 20 Base)
                             else u32RegSmnMapCtrl OR drop_bit 20 Base) pThis
                        else pThis);
                  m2 = m1\<lparr>cSmnRefs := cSmnRefs m1 + 1\<rparr>
              in (INF_SUCCESS,
                  Some (0x01000000 + of_nat idxSlot * SZ_1M + offStart),
                  s1\<lparr>aSmnMapSlots := (aSmnMapSlots pThis)[idxSlot := m2]\<rparr>)))"

definition pspStubSmnUnmapByPtr :: "PSPDEFS \<Rightarrow> PSPSTUBSTATE \<Rightarrow> u32 \<Rightarrow> u32 \<times> PSPSTUBSTATE" where
  "pspStubSmnUnmapByPtr K pThis pv =
     (let PspAddrMapBase = (pv AND NOT (SZ_1M - 1)) - 0x01000000;
          idxSlot = unat (PspAddrMapBase div SZ_1M)
      in if idxSlot < 32 \<and> PspAddrMapBase mod SZ_1M = 0 then
           (let pMapping = aSmnMapSlots pThis ! idxSlot
            in if cSmnRefs pMapping > 0 then
                 (let m1 = pMapping\<lparr>cSmnRefs := cSmnRefs pMapping - 1\<rparr>
                  in if cSmnRefs m1 = 0 then
                       (let PspAddrSlotBase = 0x03220000 + of_nat (idxSlot div 2) * 4;
                            u32RegSmnMapCtrl = reg_read32 pThis PspAddrSlotBase;
                            s1 = reg_write32 PspAddrSlotBase
                                   (if odd idxSlot then u32RegSmnMapCtrl AND 0xffff
                                    else u32RegSmnMapCtrl AND 0xffff0000) pThis
                        in (INF_SUCCESS,
                            s1\<lparr>aSmnMapSlots := (aSmnMapSlots pThis)[idxSlot := m1\<lparr>SmnAddrBase := 0\<rparr>]\<rparr>))
                     else (INF_SUCCESS, pThis\<lparr>aSmnMapSlots := (aSmnMapSlots pThis)[idxSlot := m1]\<rparr>))
               else (ERR_INVALID_PARAMETER K, pThis))
         else (ERR_INVALID_PARAMETER K, pThis))"

section \<open>Timekeeping and the send path\<close>

text \<open>\<^verbatim>\<open>pspStubGetMillies\<close> (main.c, lines 484-500): one reading of the clock.\<close>

definition pspStubGetMillies :: "PSPSTUBSTATE \<Rightarrow> u32 \<times> PSPSTUBSTATE" where
  "pspStubGetMillies pThis =
     (Millies (Timer pThis) (cReads (Timer pThis)),
      pThis\<lparr>Timer := (Timer pThis)\<lparr>cReads := Suc (cReads (Timer pThis))\<rparr>\<rparr>)"

text \<open>The checksum loops \<^verbatim>\<open>for (i...) uChkSum += ab[i]\<close>: the running 32-bit sum of bytes.\<close>

definition chk_add :: "u32 \<Rightarrow> u8 list \<Rightarrow> u32" where
  "chk_add c bs = foldl (\<lambda>c b. c + ucast b) c bs"

text \<open>
  \<^verbatim>\<open>pspStubPduSend\<close> (main.c, lines 514-547), in its two halves: \<open>pspStubPduBuild\<close> is
  "Initialize header and footer" with the two checksum loops, \<open>pspStubPduSend\<close> then writes
  header, payload and footer. The argument \<open>payload\<close> is the list of the \<^verbatim>\<open>cbPayload\<close> bytes
  at \<^verbatim>\<open>pvPayload\<close>, which the second checksum loop reads whatever the pointer is; the argument
  \<open>pvPayload\<close> is the pointer as line 541 reads it, as a truth value: it is false for \<^verbatim>\<open>NULL\<close>,
  the address 0. So the payload is written when \<^verbatim>\<open>pvPayload && cbPayload\<close>, and a \<^verbatim>\<open>NULL\<close>
  pointer with a size other than 0 gives a header and a checksum that count \<^verbatim>\<open>cbPayload\<close>
  bytes, and no payload on the line.
\<close>

definition pspStubPduBuild ::
    "PSPDEFS \<Rightarrow> PSPSTUBSTATE \<Rightarrow> u32 \<Rightarrow> u32 \<Rightarrow> u16 \<Rightarrow> u8 list
       \<Rightarrow> PSPSERIALPDUHDR \<times> PSPSERIALPDUFOOTER \<times> PSPSTUBSTATE" where
  "pspStubPduBuild K pThis rcReq' idCcd' enmPduRrnId payload =
     (let s1 = pThis\<lparr>cPdusSent := cPdusSent pThis + 1\<rparr>;
          (ts, s2) = pspStubGetMillies s1;
          PduHdr = \<lparr>u32Magic = PSP_SERIAL_PSP_2_EXT_PDU_START_MAGIC K,
                    cbPdu = of_nat (length payload),
                    cPdus = cPdusSent s1,
                    enmRrnId = enmPduRrnId,
                    idCcd = ucast idCcd',
                    rcReq = rcReq',
                    tsMillies = ts\<rparr>;
          uChkSum = chk_add (chk_add 0 (PduHdr_ab PduHdr)) payload;
          PduFooter = \<lparr>u32ChkSum = (0xffffffff - uChkSum) + 1,
                       u32MagicEnd = PSP_SERIAL_PSP_2_EXT_PDU_END_MAGIC K\<rparr>
      in (PduHdr, PduFooter, s2))"

definition pspStubPduSend ::
    "PSPDEFS \<Rightarrow> PSPSTUBSTATE \<Rightarrow> u32 \<Rightarrow> u32 \<Rightarrow> u16 \<Rightarrow> bool \<Rightarrow> u8 list
       \<Rightarrow> u32 \<times> PSPSTUBSTATE" where
  "pspStubPduSend K pThis rcReq' idCcd' enmPduRrnId pvPayload payload =
     (case pspStubPduBuild K pThis rcReq' idCcd' enmPduRrnId payload of
        (PduHdr, PduFooter, s2) \<Rightarrow>
          (let (rc1, u1) = PSPUartWrite (Uart s2) (PduHdr_bytes PduHdr);
               (rc2, u2) = (if rc1 = 0 \<and> pvPayload \<and> payload \<noteq> []
                            then PSPUartWrite u1 payload else (rc1, u1));
               (rc3, u3) = (if rc2 = 0 then PSPUartWrite u2 (PduFooter_bytes PduFooter) else (rc2, u2))
           in (rc3, s2\<lparr>Uart := u3\<rparr>)))"

section \<open>The receive path\<close>

text \<open>\<^verbatim>\<open>pspStubPduRecvReset\<close> (main.c, lines 556-561).\<close>

definition pspStubPduRecvReset :: "PSPSTUBSTATE \<Rightarrow> PSPSTUBSTATE" where
  "pspStubPduRecvReset pThis =
     pThis\<lparr>enmPduRecvState := PSPSERIALPDURECVSTATE_HDR,
           cbPduRecvLeft := of_nat sizeof_PSPSERIALPDUHDR,
           offPduRecv := 0\<rparr>"

text \<open>\<^verbatim>\<open>pspStubPduHdrValidate\<close> (main.c, lines 571-586). The tag and the unit id are compared
  as unsigned values.\<close>

definition pspStubPduHdrValidate :: "PSPDEFS \<Rightarrow> PSPSTUBSTATE \<Rightarrow> PSPSERIALPDUHDR \<Rightarrow> u32" where
  "pspStubPduHdrValidate K pThis pHdr =
     (if u32Magic pHdr \<noteq> PSP_SERIAL_EXT_2_PSP_PDU_START_MAGIC K then - 1
      else if unat (cbPdu pHdr) > SZ_4K - sizeof_PSPSERIALPDUHDR - sizeof_PSPSERIALPDUFOOTER then - 1
      else if enmRrnId pHdr < PSPSERIALPDURRNID_REQUEST_FIRST K
              \<or> enmRrnId pHdr \<ge> PSPSERIALPDURRNID_REQUEST_INVALID_FIRST K then - 1
      else if cPdus pHdr \<noteq> cPduRecvNext pThis then - 1
      else if ucast (idCcd pHdr) \<ge> cCcds pThis then - 1
      else 0)"

text \<open>\<^verbatim>\<open>pspStubPduValidate\<close> (main.c, lines 596-614). The header is at \<^verbatim>\<open>&abPdu[p]\<close>; the
  payload follows the header and the footer follows the payload.\<close>

definition pspStubPduValidate :: "PSPDEFS \<Rightarrow> PSPSTUBSTATE \<Rightarrow> nat \<Rightarrow> u32" where
  "pspStubPduValidate K pThis p =
     (let pHdr = PduHdr_at (abPdu pThis) p;
          uChkSum = chk_add (chk_add 0 (PduHdr_ab_at (abPdu pThis) p))
                      (buf_bytes (abPdu pThis) (p + sizeof_PSPSERIALPDUHDR) (unat (cbPdu pHdr)));
          pFooter = PduFooter_at (abPdu pThis) (p + sizeof_PSPSERIALPDUHDR + unat (cbPdu pHdr))
      in if uChkSum + u32ChkSum pFooter \<noteq> 0
            \<or> u32MagicEnd pFooter \<noteq> PSP_SERIAL_EXT_2_PSP_PDU_END_MAGIC K
         then - 1 else 0)"

text \<open>\<^verbatim>\<open>pspStubPduRecvAdvance\<close> (main.c, lines 624-687). The second component is
  \<^verbatim>\<open>*ppPduRcvd\<close>: \<open>None\<close> is \<^verbatim>\<open>NULL\<close>, \<open>Some p\<close> is \<^verbatim>\<open>&abPdu[p]\<close>.\<close>

definition pspStubPduRecvAdvance :: "PSPDEFS \<Rightarrow> PSPSTUBSTATE \<Rightarrow> u32 \<times> nat option \<times> PSPSTUBSTATE" where
  "pspStubPduRecvAdvance K pThis =
     (case enmPduRecvState pThis of
        PSPSERIALPDURECVSTATE_HDR \<Rightarrow>
          (let pHdr = PduHdr_at (abPdu pThis) 0;
               rc2 = pspStubPduHdrValidate K pThis pHdr
           in if rc2 = 0 then
                (if cbPdu pHdr \<noteq> 0
                 then (INF_SUCCESS, None,
                       pThis\<lparr>enmPduRecvState := PSPSERIALPDURECVSTATE_PAYLOAD,
                             cbPduRecvLeft := cbPdu pHdr\<rparr>)
                 else (INF_SUCCESS, None,
                       pThis\<lparr>enmPduRecvState := PSPSERIALPDURECVSTATE_FOOTER,
                             cbPduRecvLeft := of_nat sizeof_PSPSERIALPDUFOOTER\<rparr>))
              else (INF_SUCCESS, None, pspStubPduRecvReset pThis))
      | PSPSERIALPDURECVSTATE_PAYLOAD \<Rightarrow>
          (INF_SUCCESS, None,
           pThis\<lparr>enmPduRecvState := PSPSERIALPDURECVSTATE_FOOTER,
                 cbPduRecvLeft := of_nat sizeof_PSPSERIALPDUFOOTER\<rparr>)
      | PSPSERIALPDURECVSTATE_FOOTER \<Rightarrow>
          (let rc = pspStubPduValidate K pThis 0
           in if rc = 0
              then (rc, Some 0, pspStubPduRecvReset (pThis\<lparr>cPduRecvNext := cPduRecvNext pThis + 1\<rparr>))
              else (rc, None, pspStubPduRecvReset pThis))
      | _ \<Rightarrow> (ERR_INVALID_STATE K, None, pThis))"

text \<open>
  \<^verbatim>\<open>pspStubPduRecv\<close> (main.c, lines 698-736). \<open>pspStubPduRecv_body\<close> is one pass through the
  block of the \<^verbatim>\<open>do ... while\<close>; its first component says that the pass left by \<^verbatim>\<open>break\<close>.
  \<open>pspStubPduRecv_loop\<close> is the loop, with fuel: the condition
  \<^verbatim>\<open>!rc && (pspStubGetMillies(pThis) - tsStartMs < cMillies) || (cMillies == INDEFINITE)\<close>
  parses as \<^verbatim>\<open>(!rc && ...) || ...\<close> and reads the clock only when \<^verbatim>\<open>rc\<close> is zero.
  \<open>pspStubPduRecv\<close> reads the start time, runs the loop and applies the final test
  \<^verbatim>\<open>tsStartMs + pspStubGetMillies(pThis) >= cMillies\<close>. The caller's \<^verbatim>\<open>pPdu\<close> is not
  initialised: it starts as \<open>None\<close>.
\<close>

definition pspStubPduRecv_body ::
    "PSPDEFS \<Rightarrow> PSPSTUBSTATE \<Rightarrow> u32 \<Rightarrow> nat option \<Rightarrow> bool \<times> u32 \<times> nat option \<times> PSPSTUBSTATE" where
  "pspStubPduRecv_body K pThis rc pPdu =
     (let (cbAvail, u1) = PSPUartGetDataAvail (Uart pThis);
          s1 = pThis\<lparr>Uart := u1\<rparr>
      in if cbAvail \<noteq> 0 then
           (let cbThisRecv = min cbAvail (cbPduRecvLeft s1);
                (rc1, data, u2) = PSPUartRead u1 (unat cbThisRecv);
                s2 = s1\<lparr>Uart := u2\<rparr>
            in if rc1 = 0 then
                 (let s3 = s2\<lparr>abPdu := buf_write (abPdu s2) (unat (offPduRecv s2)) data,
                               offPduRecv := offPduRecv s2 + cbThisRecv,
                               cbPduRecvLeft := cbPduRecvLeft s2 - cbThisRecv\<rparr>
                  in if cbPduRecvLeft s3 = 0 then
                       (case pspStubPduRecvAdvance K s3 of
                          (rc2, pPdu2, s4) \<Rightarrow> (rc2 = 0 \<and> pPdu2 \<noteq> None, rc2, pPdu2, s4))
                     else (False, rc1, pPdu, s3))
               else (False, rc1, pPdu, s2))
         else (False, rc, pPdu, s1))"

fun pspStubPduRecv_loop ::
    "nat \<Rightarrow> PSPDEFS \<Rightarrow> u32 \<Rightarrow> u32 \<Rightarrow> PSPSTUBSTATE \<Rightarrow> u32 \<Rightarrow> nat option
       \<Rightarrow> (u32 \<times> nat option \<times> PSPSTUBSTATE) result" where
  "pspStubPduRecv_loop 0 K tsStartMs cMillies pThis rc pPdu = Spins"
| "pspStubPduRecv_loop (Suc n) K tsStartMs cMillies pThis rc pPdu =
     (case pspStubPduRecv_body K pThis rc pPdu of
        (fBreak, rc1, pPdu1, s1) \<Rightarrow>
          if fBreak then Returns (rc1, pPdu1, s1)
          else if rc1 = 0 then
            (case pspStubGetMillies s1 of
               (ts, s2) \<Rightarrow>
                 if ts - tsStartMs < cMillies \<or> cMillies = PSP_SERIAL_STUB_INDEFINITE_WAIT
                 then pspStubPduRecv_loop n K tsStartMs cMillies s2 rc1 pPdu1
                 else Returns (rc1, pPdu1, s2))
          else if cMillies = PSP_SERIAL_STUB_INDEFINITE_WAIT
            then pspStubPduRecv_loop n K tsStartMs cMillies s1 rc1 pPdu1
            else Returns (rc1, pPdu1, s1))"

definition pspStubPduRecv ::
    "nat \<Rightarrow> PSPDEFS \<Rightarrow> PSPSTUBSTATE \<Rightarrow> u32 \<Rightarrow> (u32 \<times> nat option \<times> PSPSTUBSTATE) result" where
  "pspStubPduRecv n K pThis cMillies =
     (case pspStubGetMillies pThis of
        (tsStartMs, s0) \<Rightarrow>
          (case pspStubPduRecv_loop n K tsStartMs cMillies s0 INF_SUCCESS None of
             Returns (rc, pPdu, s1) \<Rightarrow>
               (case pspStubGetMillies s1 of
                  (ts, s2) \<Rightarrow>
                    Returns (if tsStartMs + ts \<ge> cMillies then INF_TRY_AGAIN K else rc, pPdu, s2))
           | Spins \<Rightarrow> Spins
           | Faults \<Rightarrow> Faults))"

text \<open>
  \<^verbatim>\<open>pspStubCheckConnection\<close> (main.c, lines 746-777). Modelled from the spec: the layout of
  \<^verbatim>\<open>PSPSERIALCONNECTRESP\<close> (six 32-bit members, in the order in which main.c assigns them).
  Reading the tag through a \<^verbatim>\<open>pPdu\<close> that \<^verbatim>\<open>pspStubPduRecv\<close> left unset is \<open>Faults\<close>.
  The payload pointer \<^verbatim>\<open>&Resp\<close> is the address of a local variable, not \<^verbatim>\<open>NULL\<close>.
\<close>

definition pspStubCheckConnection ::
    "nat \<Rightarrow> PSPDEFS \<Rightarrow> PSPSTUBSTATE \<Rightarrow> u32 \<Rightarrow> (u32 \<times> PSPSTUBSTATE) result" where
  "pspStubCheckConnection n K pThis cMillies =
     (case pspStubPduRecv n K pThis cMillies of
        Returns (rc, pPdu, s1) \<Rightarrow>
          if rc = INF_SUCCESS then
            (case pPdu of
               None \<Rightarrow> Faults
             | Some p \<Rightarrow>
                 if enmRrnId (PduHdr_at (abPdu s1) p) = PSPSERIALPDURRNID_REQUEST_CONNECT K then
                   (let Resp = le32 (of_nat SZ_4K) @ le32 (of_nat (16 * SZ_1K)) @ le32 (pabScratch s1)
                                 @ le32 1 @ le32 1 @ le32 0;
                        s2 = s1\<lparr>cPdusSent := 0\<rparr>;
                        (rc1, s3) = pspStubPduSend K s2 INF_SUCCESS 0
                                      (PSPSERIALPDURRNID_RESPONSE_CONNECT K) True Resp
                    in Returns (INF_SUCCESS, if rc1 = 0 then s3\<lparr>fConnected := True\<rparr> else s3))
                 else Returns (INF_SUCCESS, s1))
          else Returns (INF_SUCCESS, s1)
      | Spins \<Rightarrow> Spins
      | Faults \<Rightarrow> Faults)"

section \<open>The address-space proxies\<close>

text \<open>
  Modelled from the spec: the request structures \<^verbatim>\<open>PSPSERIALPSPMEMXFERREQ\<close>,
  \<^verbatim>\<open>PSPSERIALSMNMEMXFERREQ\<close> and \<^verbatim>\<open>PSPSERIALX86MEMXFERREQ\<close> are declared in the missing
  header. Their shape is the payload shape of the specification (section 6): a 64-bit
  target address, then the 32-bit transfer length, 12 bytes in all; the bytes of a write
  follow (\<^verbatim>\<open>pReq + 1\<close>). Local and SMN addresses are the low 32 bits of the address field.
  In the functions below \<open>pv\<close> is the index in \<^verbatim>\<open>abPdu\<close> where the payload starts. The pointer
  \<^verbatim>\<open>pvRespPayload\<close> goes to \<open>pspStubPduSend\<close> as a truth value: false where the source passes
  \<^verbatim>\<open>NULL\<close>, true for the local array \<^verbatim>\<open>abRead\<close>, and for a pointer made of an address (the
  start address of a local read, the mapping of an x86 memory read) whether the address is
  not 0.
\<close>

definition sizeof_XFERREQ :: nat where "sizeof_XFERREQ = 12"

definition XferReq_addr :: "PSPSTUBSTATE \<Rightarrow> nat \<Rightarrow> u64" where
  "XferReq_addr pThis pv = rd64 (abPdu pThis) pv"

definition XferReq_cbXfer :: "PSPSTUBSTATE \<Rightarrow> nat \<Rightarrow> u32" where
  "XferReq_cbXfer pThis pv = rd32 (abPdu pThis) (pv + 8)"

definition XferReq_data :: "PSPSTUBSTATE \<Rightarrow> nat \<Rightarrow> nat \<Rightarrow> u8 list" where
  "XferReq_data pThis pv n = buf_bytes (abPdu pThis) (pv + sizeof_XFERREQ) n"

text \<open>\<^verbatim>\<open>pspStubPduProcessPspMemXfer\<close> (main.c, lines 789-816).\<close>

definition pspStubPduProcessPspMemXfer ::
    "PSPDEFS \<Rightarrow> PSPSTUBSTATE \<Rightarrow> nat \<Rightarrow> u32 \<Rightarrow> bool \<Rightarrow> u32 \<times> PSPSTUBSTATE" where
  "pspStubPduProcessPspMemXfer K pThis pv cbPayload fWrite =
     (if unat cbPayload < sizeof_XFERREQ then (ERR_INVALID_PARAMETER K, pThis)
      else
        (let cbXfer = XferReq_cbXfer pThis pv;
             PspAddrStart = (ucast (XferReq_addr pThis pv) :: u32)
         in if fWrite then
              pspStubPduSend K
                (pThis\<lparr>Mem := mem_write (Mem pThis) PspAddrStart (XferReq_data pThis pv (unat cbXfer))\<rparr>)
                INF_SUCCESS 0 (PSPSERIALPDURRNID_RESPONSE_PSP_MEM_WRITE K) False []
            else
              pspStubPduSend K pThis INF_SUCCESS 0 (PSPSERIALPDURRNID_RESPONSE_PSP_MEM_READ K)
                (PspAddrStart \<noteq> 0) (mem_bytes (Mem pThis) PspAddrStart (unat cbXfer))))"

text \<open>\<^verbatim>\<open>pspStubMmioAccess\<close> (main.c, lines 827-846): the bytes one access of the width
  \<open>cb\<close> moves from the source to the destination; \<open>src n\<close> is the \<open>n\<close> bytes at the source.\<close>

definition pspStubMmioAccess :: "(nat \<Rightarrow> u8 list) \<Rightarrow> u32 \<Rightarrow> u8 list" where
  "pspStubMmioAccess src cb =
     (if cb = 1 then src 1
      else if cb = 2 then src 2
      else if cb = 4 then src 4
      else if cb = 8 then src 8
      else [])"

text \<open>\<^verbatim>\<open>pspStubPduProcessPspMmioXfer\<close> (main.c, lines 858-895).\<close>

definition pspStubPduProcessPspMmioXfer ::
    "PSPDEFS \<Rightarrow> PSPSTUBSTATE \<Rightarrow> nat \<Rightarrow> u32 \<Rightarrow> bool \<Rightarrow> u32 \<times> PSPSTUBSTATE" where
  "pspStubPduProcessPspMmioXfer K pThis pv cbPayload fWrite =
     (let cbXfer = XferReq_cbXfer pThis pv
      in if unat cbPayload < sizeof_XFERREQ
            \<or> (cbXfer \<noteq> 1 \<and> cbXfer \<noteq> 2 \<and> cbXfer \<noteq> 4 \<and> cbXfer \<noteq> 8)
         then (ERR_INVALID_PARAMETER K, pThis)
         else
           (let PspAddrStart = (ucast (XferReq_addr pThis pv) :: u32)
            in if fWrite then
                 pspStubPduSend K
                   (pThis\<lparr>Mem := mem_write (Mem pThis) PspAddrStart
                                    (pspStubMmioAccess (XferReq_data pThis pv) cbXfer)\<rparr>)
                   INF_SUCCESS 0 (PSPSERIALPDURRNID_RESPONSE_PSP_MEM_WRITE K) False []
               else
                 pspStubPduSend K pThis INF_SUCCESS 0 (PSPSERIALPDURRNID_RESPONSE_PSP_MEM_READ K)
                   True (pspStubMmioAccess (mem_bytes (Mem pThis) PspAddrStart) cbXfer)))"

text \<open>\<^verbatim>\<open>pspStubPduProcessPspSmnXfer\<close> (main.c, lines 907-946).\<close>

definition pspStubPduProcessPspSmnXfer ::
    "PSPDEFS \<Rightarrow> PSPSTUBSTATE \<Rightarrow> nat \<Rightarrow> u32 \<Rightarrow> bool \<Rightarrow> u32 \<times> PSPSTUBSTATE" where
  "pspStubPduProcessPspSmnXfer K pThis pv cbPayload fWrite =
     (let cbXfer = XferReq_cbXfer pThis pv
      in if unat cbPayload < sizeof_XFERREQ
            \<or> (cbXfer \<noteq> 1 \<and> cbXfer \<noteq> 2 \<and> cbXfer \<noteq> 4 \<and> cbXfer \<noteq> 8)
         then (ERR_INVALID_PARAMETER K, pThis)
         else
           (let enmResponse = (if fWrite then PSPSERIALPDURRNID_RESPONSE_PSP_SMN_WRITE K
                               else PSPSERIALPDURRNID_RESPONSE_PSP_SMN_READ K)
            in case pspStubSmnPhysMap K pThis (ucast (XferReq_addr pThis pv)) of
                 (rc, pvMap, s1) \<Rightarrow>
                   (case pvMap of
                      Some pvMap' \<Rightarrow>
                        (let (rc1, s2) =
                               (if fWrite then
                                  pspStubPduSend K
                                    (s1\<lparr>Mem := mem_write (Mem s1) pvMap'
                                                   (pspStubMmioAccess (XferReq_data s1 pv) cbXfer)\<rparr>)
                                    INF_SUCCESS 0 enmResponse False []
                                else
                                  pspStubPduSend K s1 INF_SUCCESS 0 enmResponse
                                    True (pspStubMmioAccess (mem_bytes (Mem s1) pvMap') cbXfer))
                         in (rc1, snd (pspStubSmnUnmapByPtr K s2 pvMap')))
                    | None \<Rightarrow> pspStubPduSend K s1 rc 0 enmResponse False [])))"

text \<open>\<^verbatim>\<open>pspStubPduProcessPspX86MemXfer\<close> (main.c, lines 958-993).\<close>

definition pspStubPduProcessPspX86MemXfer ::
    "PSPDEFS \<Rightarrow> PSPSTUBSTATE \<Rightarrow> nat \<Rightarrow> u32 \<Rightarrow> bool \<Rightarrow> u32 \<times> PSPSTUBSTATE" where
  "pspStubPduProcessPspX86MemXfer K pThis pv cbPayload fWrite =
     (if unat cbPayload < sizeof_XFERREQ then (ERR_INVALID_PARAMETER K, pThis)
      else
        (let enmResponse = (if fWrite then PSPSERIALPDURRNID_RESPONSE_PSP_X86_MEM_WRITE K
                            else PSPSERIALPDURRNID_RESPONSE_PSP_X86_MEM_READ K)
         in case pspStubX86PhysMap K pThis (XferReq_addr pThis pv) False of
              (rc, pvMap, s1) \<Rightarrow>
                (case pvMap of
                   Some pvMap' \<Rightarrow>
                     (let cbXfer = XferReq_cbXfer s1 pv;
                          (rc1, s2) =
                            (if fWrite then
                               pspStubPduSend K
                                 (s1\<lparr>Mem := mem_write (Mem s1) pvMap' (XferReq_data s1 pv (unat cbXfer))\<rparr>)
                                 INF_SUCCESS 0 enmResponse False []
                             else
                               pspStubPduSend K s1 INF_SUCCESS 0 enmResponse
                                 (pvMap' \<noteq> 0) (mem_bytes (Mem s1) pvMap' (unat cbXfer)))
                      in (rc1, snd (pspStubX86PhysUnmapByPtr K s2 pvMap')))
                 | None \<Rightarrow> pspStubPduSend K s1 rc 0 enmResponse False [])))"

text \<open>\<^verbatim>\<open>pspStubPduProcessPspX86MmioXfer\<close> (main.c, lines 1005-1044); it maps with
  \<^verbatim>\<open>fMmio = false\<close>, as the source does.\<close>

definition pspStubPduProcessPspX86MmioXfer ::
    "PSPDEFS \<Rightarrow> PSPSTUBSTATE \<Rightarrow> nat \<Rightarrow> u32 \<Rightarrow> bool \<Rightarrow> u32 \<times> PSPSTUBSTATE" where
  "pspStubPduProcessPspX86MmioXfer K pThis pv cbPayload fWrite =
     (let cbXfer = XferReq_cbXfer pThis pv
      in if unat cbPayload < sizeof_XFERREQ
            \<or> (cbXfer \<noteq> 1 \<and> cbXfer \<noteq> 2 \<and> cbXfer \<noteq> 4 \<and> cbXfer \<noteq> 8)
         then (ERR_INVALID_PARAMETER K, pThis)
         else
           (let enmResponse = (if fWrite then PSPSERIALPDURRNID_RESPONSE_PSP_X86_MMIO_WRITE K
                               else PSPSERIALPDURRNID_RESPONSE_PSP_X86_MMIO_READ K)
            in case pspStubX86PhysMap K pThis (XferReq_addr pThis pv) False of
                 (rc, pvMap, s1) \<Rightarrow>
                   (case pvMap of
                      Some pvMap' \<Rightarrow>
                        (let (rc1, s2) =
                               (if fWrite then
                                  pspStubPduSend K
                                    (s1\<lparr>Mem := mem_write (Mem s1) pvMap'
                                                   (pspStubMmioAccess (XferReq_data s1 pv) cbXfer)\<rparr>)
                                    INF_SUCCESS 0 enmResponse False []
                                else
                                  pspStubPduSend K s1 INF_SUCCESS 0 enmResponse
                                    True (pspStubMmioAccess (mem_bytes (Mem s1) pvMap') cbXfer))
                         in (rc1, snd (pspStubX86PhysUnmapByPtr K s2 pvMap')))
                    | None \<Rightarrow> pspStubPduSend K s1 rc 0 enmResponse False [])))"

text \<open>\<^verbatim>\<open>pspStubPduProcess\<close> (main.c, lines 1054-1096): the \<^verbatim>\<open>switch\<close> on the tag, in the
  order of its labels; \<open>pPdu\<close> is the pointer \<^verbatim>\<open>pspStubPduRecv\<close> handed back.\<close>

definition pspStubPduProcess ::
    "PSPDEFS \<Rightarrow> PSPSTUBSTATE \<Rightarrow> nat option \<Rightarrow> (u32 \<times> PSPSTUBSTATE) result" where
  "pspStubPduProcess K pThis pPdu =
     (case pPdu of
        None \<Rightarrow> Faults
      | Some p \<Rightarrow>
          (let pHdr = PduHdr_at (abPdu pThis) p;
               t = enmRrnId pHdr;
               pv = p + sizeof_PSPSERIALPDUHDR;
               cb = cbPdu pHdr
           in Returns
            (if t = PSPSERIALPDURRNID_REQUEST_PSP_MEM_READ K
               then pspStubPduProcessPspMemXfer K pThis pv cb False
             else if t = PSPSERIALPDURRNID_REQUEST_PSP_MEM_WRITE K
               then pspStubPduProcessPspMemXfer K pThis pv cb True
             else if t = PSPSERIALPDURRNID_REQUEST_PSP_MMIO_READ K
               then pspStubPduProcessPspMmioXfer K pThis pv cb False
             else if t = PSPSERIALPDURRNID_REQUEST_PSP_MMIO_WRITE K
               then pspStubPduProcessPspMmioXfer K pThis pv cb True
             else if t = PSPSERIALPDURRNID_REQUEST_PSP_SMN_READ K
               then pspStubPduProcessPspSmnXfer K pThis pv cb False
             else if t = PSPSERIALPDURRNID_REQUEST_PSP_SMN_WRITE K
               then pspStubPduProcessPspSmnXfer K pThis pv cb True
             else if t = PSPSERIALPDURRNID_REQUEST_PSP_X86_MEM_READ K
               then pspStubPduProcessPspX86MemXfer K pThis pv cb False
             else if t = PSPSERIALPDURRNID_REQUEST_PSP_X86_MEM_WRITE K
               then pspStubPduProcessPspX86MemXfer K pThis pv cb True
             else if t = PSPSERIALPDURRNID_REQUEST_PSP_X86_MMIO_READ K
               then pspStubPduProcessPspX86MmioXfer K pThis pv cb False
             else if t = PSPSERIALPDURRNID_REQUEST_PSP_X86_MMIO_WRITE K
               then pspStubPduProcessPspX86MmioXfer K pThis pv cb True
             else (INF_SUCCESS, pThis))))"

section \<open>Session control\<close>

text \<open>\<^verbatim>\<open>pspStubLogFlush\<close> (main.c, lines 1156-1161), and a call of \<^verbatim>\<open>LogRel\<close>: the logger
  (\<^verbatim>\<open>log.h\<close>, not among the sources) flushes the buffers that are due through the callback,
  each from a buffer of its own (a pointer that is not \<^verbatim>\<open>NULL\<close>).\<close>

definition pspStubLogFlush :: "PSPDEFS \<Rightarrow> PSPSTUBSTATE \<Rightarrow> u8 list \<Rightarrow> PSPSTUBSTATE" where
  "pspStubLogFlush K pThis pbBuf =
     snd (pspStubPduSend K pThis INF_SUCCESS 0 (PSPSERIALPDURRNID_NOTIFICATION_LOG_MSG K) True pbBuf)"

definition LogRel :: "PSPDEFS \<Rightarrow> PSPSTUBSTATE \<Rightarrow> PSPSTUBSTATE" where
  "LogRel K pThis =
     (case LogPending pThis of
        [] \<Rightarrow> pThis
      | bufs # rest \<Rightarrow> foldl (pspStubLogFlush K) (pThis\<lparr>LogPending := rest\<rparr>) bufs)"

text \<open>
  \<^verbatim>\<open>pspStubMainloop\<close> (main.c, lines 1105-1145). \<open>pspStubMainloop_beacon\<close> is the
  \<^verbatim>\<open>while (!pThis->fConnected && !rc)\<close> loop (lines 1112-1125), \<open>pspStubMainloop_iter\<close> one
  pass through the block of the \<^verbatim>\<open>for (;;)\<close> (lines 1135-1139), \<open>pspStubMainloop_connected\<close>
  that loop (lines 1133-1140): its block has no \<^verbatim>\<open>break\<close> and no \<^verbatim>\<open>return\<close>. Modelled from
  the spec: the layout of \<^verbatim>\<open>PSPSERIALBEACONNOT\<close> (the beacon counter and a pad word).
\<close>

fun pspStubMainloop_beacon ::
    "nat \<Rightarrow> PSPDEFS \<Rightarrow> PSPSTUBSTATE \<Rightarrow> u32 \<Rightarrow> (u32 \<times> PSPSTUBSTATE) result" where
  "pspStubMainloop_beacon 0 K pThis rc = Spins"
| "pspStubMainloop_beacon (Suc n) K pThis rc =
     (if \<not> fConnected pThis \<and> rc = 0 then
        (let s1 = pThis\<lparr>cBeaconsSent := cBeaconsSent pThis + 1\<rparr>;
             Beacon = le32 (cBeaconsSent s1) @ le32 0;
             (rc1, s2) = pspStubPduSend K s1 INF_SUCCESS 0
                           (PSPSERIALPDURRNID_NOTIFICATION_BEACON K) True Beacon
         in if rc1 = 0 then
              (case pspStubCheckConnection n K s2 1000 of
                 Returns (rc2, s3) \<Rightarrow> pspStubMainloop_beacon n K s3 rc2
               | Spins \<Rightarrow> Spins
               | Faults \<Rightarrow> Faults)
            else pspStubMainloop_beacon n K s2 rc1)
      else Returns (rc, pThis))"

definition pspStubMainloop_iter ::
    "nat \<Rightarrow> PSPDEFS \<Rightarrow> PSPSTUBSTATE \<Rightarrow> (u32 \<times> PSPSTUBSTATE) result" where
  "pspStubMainloop_iter n K pThis =
     (case pspStubPduRecv n K pThis PSP_SERIAL_STUB_INDEFINITE_WAIT of
        Returns (rc, pPdu, s1) \<Rightarrow>
          if rc = 0 then pspStubPduProcess K s1 pPdu else Returns (rc, s1)
      | Spins \<Rightarrow> Spins
      | Faults \<Rightarrow> Faults)"

fun pspStubMainloop_connected ::
    "nat \<Rightarrow> PSPDEFS \<Rightarrow> PSPSTUBSTATE \<Rightarrow> (u32 \<times> PSPSTUBSTATE) result" where
  "pspStubMainloop_connected 0 K pThis = Spins"
| "pspStubMainloop_connected (Suc n) K pThis =
     (case pspStubMainloop_iter n K pThis of
        Returns (rc, s1) \<Rightarrow> pspStubMainloop_connected n K s1
      | Spins \<Rightarrow> Spins
      | Faults \<Rightarrow> Faults)"

definition pspStubMainloop ::
    "nat \<Rightarrow> PSPDEFS \<Rightarrow> PSPSTUBSTATE \<Rightarrow> (u32 \<times> PSPSTUBSTATE) result" where
  "pspStubMainloop n K pThis =
     (case pspStubMainloop_beacon n K (LogRel K pThis) INF_SUCCESS of
        Returns (rc, s1) \<Rightarrow>
          if rc = 0 \<and> fConnected s1 then pspStubMainloop_connected n K (LogRel K s1)
          else Returns (rc, LogRel K s1)
      | Spins \<Rightarrow> Spins
      | Faults \<Rightarrow> Faults)"

text \<open>The state \<^verbatim>\<open>main\<close> sets up before it maps the UART (main.c, lines 1169-1182), around
  a given clock, serial line and memory; \<open>pScratch\<close> is the address of \<^verbatim>\<open>abScratch\<close>.\<close>

definition main_init ::
    "PSPDEFS \<Rightarrow> PSPTIMER \<Rightarrow> PSPUART \<Rightarrow> (u32 \<Rightarrow> u8) \<Rightarrow> u32 \<Rightarrow> PSPSTUBSTATE" where
  "main_init K tm uart mem pScratch =
     pspStubPduRecvReset
       \<lparr>Timer = tm, Uart = uart,
        aX86MapSlots = replicate 15 \<lparr>PhysX86AddrBase = NIL_X86PADDR K, uMemType = 0, cRefs = 0\<rparr>,
        aSmnMapSlots = replicate 32 \<lparr>SmnAddrBase = 0, cSmnRefs = 0\<rparr>,
        cCcds = 1, fConnected = False, cBeaconsSent = 0, cPdusSent = 0, cPduRecvNext = 1,
        enmPduRecvState = PSPSERIALPDURECVSTATE_INVALID, cbPduRecvLeft = 0, offPduRecv = 0,
        abPdu = (\<lambda>i. 0), pabScratch = pScratch, Mem = mem, RegWrites = [],
        LogPending = []\<rparr>"

text \<open>The counters of a run of sends: for each request of the list, in order, the counter
  \<^verbatim>\<open>pspStubPduSend\<close> stamps into the header it builds in the state the sends before it left.
  A request is the status code, the unit id, the tag, the payload pointer as a truth value
  and the payload.\<close>

fun pspStubPduSend_counters ::
    "PSPDEFS \<Rightarrow> PSPSTUBSTATE \<Rightarrow> (u32 \<times> u32 \<times> u16 \<times> bool \<times> u8 list) list \<Rightarrow> u32 list" where
  "pspStubPduSend_counters K pThis [] = []"
| "pspStubPduSend_counters K pThis ((rc, idc, tag, pv, pl) # reqs) =
     cPdus (fst (pspStubPduBuild K pThis rc idc tag pl))
       # pspStubPduSend_counters K (snd (pspStubPduSend K pThis rc idc tag pv pl)) reqs"

section \<open>Concrete constants and inputs for the runs\<close>

text \<open>
  One assignment of the constants of the missing headers, for the concrete runs below: four
  different magics, \<^verbatim>\<open>NIL_X86PADDR\<close> all ones, status codes different from zero, the request
  tags contiguous from \<^verbatim>\<open>REQUEST_FIRST = REQUEST_CONNECT\<close>, every tag different. The general
  theorems hold for every assignment.
\<close>

definition K0 :: PSPDEFS where
  "K0 = \<lparr>PSP_SERIAL_EXT_2_PSP_PDU_START_MAGIC = 0xebadc0de,
         PSP_SERIAL_EXT_2_PSP_PDU_END_MAGIC = 0xed0cdabe,
         PSP_SERIAL_PSP_2_EXT_PDU_START_MAGIC = 0xdeadc0de,
         PSP_SERIAL_PSP_2_EXT_PDU_END_MAGIC = 0xed0cdaed,
         NIL_X86PADDR = 0xffffffffffffffff,
         INF_TRY_AGAIN = 1,
         ERR_INVALID_PARAMETER = - 2,
         ERR_INVALID_STATE = - 3,
         PSPSERIALPDURRNID_INVALID = 0,
         PSPSERIALPDURRNID_REQUEST_FIRST = 1,
         PSPSERIALPDURRNID_REQUEST_CONNECT = 1,
         PSPSERIALPDURRNID_REQUEST_PSP_MEM_READ = 2,
         PSPSERIALPDURRNID_REQUEST_PSP_MEM_WRITE = 3,
         PSPSERIALPDURRNID_REQUEST_PSP_MMIO_READ = 4,
         PSPSERIALPDURRNID_REQUEST_PSP_MMIO_WRITE = 5,
         PSPSERIALPDURRNID_REQUEST_PSP_SMN_READ = 6,
         PSPSERIALPDURRNID_REQUEST_PSP_SMN_WRITE = 7,
         PSPSERIALPDURRNID_REQUEST_PSP_X86_MEM_READ = 8,
         PSPSERIALPDURRNID_REQUEST_PSP_X86_MEM_WRITE = 9,
         PSPSERIALPDURRNID_REQUEST_PSP_X86_MMIO_READ = 10,
         PSPSERIALPDURRNID_REQUEST_PSP_X86_MMIO_WRITE = 11,
         PSPSERIALPDURRNID_REQUEST_INVALID_FIRST = 12,
         PSPSERIALPDURRNID_RESPONSE_CONNECT = 0x101,
         PSPSERIALPDURRNID_RESPONSE_PSP_MEM_READ = 0x102,
         PSPSERIALPDURRNID_RESPONSE_PSP_MEM_WRITE = 0x103,
         PSPSERIALPDURRNID_RESPONSE_PSP_MMIO_READ = 0x104,
         PSPSERIALPDURRNID_RESPONSE_PSP_MMIO_WRITE = 0x105,
         PSPSERIALPDURRNID_RESPONSE_PSP_SMN_READ = 0x106,
         PSPSERIALPDURRNID_RESPONSE_PSP_SMN_WRITE = 0x107,
         PSPSERIALPDURRNID_RESPONSE_PSP_X86_MEM_READ = 0x108,
         PSPSERIALPDURRNID_RESPONSE_PSP_X86_MEM_WRITE = 0x109,
         PSPSERIALPDURRNID_RESPONSE_PSP_X86_MMIO_READ = 0x10a,
         PSPSERIALPDURRNID_RESPONSE_PSP_X86_MMIO_WRITE = 0x10b,
         PSPSERIALPDURRNID_NOTIFICATION_BEACON = 0x201,
         PSPSERIALPDURRNID_NOTIFICATION_LOG_MSG = 0x202\<rparr>"

text \<open>The bytes of a request as the external controller frames it: the fields of the header
  with the EXT-to-PSP magics, the payload, and the footer with the checksum over \<^verbatim>\<open>u.ab\<close>
  and the payload.\<close>

definition ExtPdu :: "PSPDEFS \<Rightarrow> u32 \<Rightarrow> u16 \<Rightarrow> u8 list \<Rightarrow> u8 list" where
  "ExtPdu K cPdus' tag payload =
     (let h = \<lparr>u32Magic = PSP_SERIAL_EXT_2_PSP_PDU_START_MAGIC K, cbPdu = of_nat (length payload),
               cPdus = cPdus', enmRrnId = tag, idCcd = 0, rcReq = 0, tsMillies = 0\<rparr>
      in PduHdr_bytes h @ payload
         @ PduFooter_bytes \<lparr>u32ChkSum = - chk_add (chk_add 0 (PduHdr_ab h)) payload,
                            u32MagicEnd = PSP_SERIAL_EXT_2_PSP_PDU_END_MAGIC K\<rparr>)"

text \<open>A quiet line with the given bytes in the receive FIFO, and a clock that stands at
  \<open>t\<close>.\<close>

definition uart_with :: "u8 list \<Rightarrow> PSPUART" where
  "uart_with bs = \<lparr>RxFifo = bs, RxLine = [], TxLine = [], RdStatus = [], WrStatus = []\<rparr>"

definition clock_at :: "u32 \<Rightarrow> PSPTIMER" where
  "clock_at t = \<lparr>Millies = (\<lambda>n. t), cReads = 0\<rparr>"

text \<open>A clock that starts at \<open>t\<close> and is \<open>d\<close> milliseconds further at each reading.\<close>

definition clock_ticking :: "u32 \<Rightarrow> u32 \<Rightarrow> PSPTIMER" where
  "clock_ticking t d = \<lparr>Millies = (\<lambda>n. t + of_nat n * d), cReads = 0\<rparr>"

text \<open>The state after \<^verbatim>\<open>main\<close>'s initialisation under the constants \<open>K0\<close>, with the bytes \<open>rx\<close>
  waiting in the receive FIFO and the clock standing at \<open>t\<close>; and the same state with a
  peer connected.\<close>

definition boot_state :: "u8 list \<Rightarrow> u32 \<Rightarrow> PSPSTUBSTATE" where
  "boot_state rx t = main_init K0 (clock_at t) (uart_with rx) (\<lambda>a. 0) 0x20000"

definition connected_state :: "u8 list \<Rightarrow> u32 \<Rightarrow> PSPSTUBSTATE" where
  "connected_state rx t = (boot_state rx t)\<lparr>fConnected := True\<rparr>"

section \<open>Properties of the mapping allocators\<close>

lemma and_not_mask_shift:
  fixes x :: "'a::len word"
  shows "x AND NOT (mask n) = push_bit n (drop_bit n x)"
  by (rule bit_word_eqI) (auto simp: bit_simps)

lemma sub_and_not_mask:
  fixes x :: "'a::len word"
  shows "x - (x AND NOT (mask n)) = take_bit n x"
proof -
  have "x = take_bit n x + push_bit n (drop_bit n x)"
    using bits_ident [of n x] by (simp add: add.commute)
  then show ?thesis
    by (metis add_diff_cancel_right' and_not_mask_shift)
qed

lemma offStart_less:
  fixes a :: u64
  shows "(ucast (a - (a AND NOT (ucast SZ_64M - 1))) :: u32) < 0x04000000"
proof -
  have m: "(ucast SZ_64M - 1 :: u64) = mask 26"
    by (simp add: SZ_64M_def mask_eq_exp_minus_1)
  have "take_bit 32 (take_bit 26 (unat a)) < (2::nat) ^ 26"
    by (simp add: take_bit_eq_mod)
  then have "unat (ucast (take_bit 26 a :: u64) :: u32) < 2 ^ 26"
    by (simp add: unsigned_ucast_eq unsigned_take_bit_eq)
  then show ?thesis
    by (simp add: m sub_and_not_mask word_less_nat_alt)
qed

lemma idx_of_ptr:
  fixes off :: u32
  assumes "i < 15" "off < 0x04000000"
  shows "((0x04000000 + of_nat i * SZ_64M + off) AND NOT (SZ_64M - 1)) - 0x04000000 = of_nat i * SZ_64M"
proof -
  have m: "(SZ_64M - 1 :: u32) = mask 26"
    by (simp add: SZ_64M_def mask_eq_exp_minus_1)
  have u: "unat off < 2 ^ 26" using assms(2) by (simp add: word_less_nat_alt)
  have e: "unat (0x04000000 + of_nat i * SZ_64M + off) = (i + 1) * 2 ^ 26 + unat off"
    using assms(1) u by (simp add: SZ_64M_def unat_word_ariths unat_of_nat)
  have "unat (drop_bit 26 (0x04000000 + of_nat i * SZ_64M + off))
          = drop_bit 26 (unat (0x04000000 + of_nat i * SZ_64M + off))"
    by (rule unat_drop_bit_eq)
  also have "\<dots> = ((i + 1) * 2 ^ 26 + unat off) div 2 ^ 26"
    by (simp only: e drop_bit_eq_div)
  also have "\<dots> = i + 1"
    using u by simp
  finally have d: "unat (drop_bit 26 (0x04000000 + of_nat i * SZ_64M + off)) = i + 1" .
  have "drop_bit 26 (0x04000000 + of_nat i * SZ_64M + off) = (of_nat (i + 1) :: u32)"
    using arg_cong [OF d, of "of_nat :: nat \<Rightarrow> u32"] by (simp only: of_nat_unat ucast_id)
  then have "(0x04000000 + of_nat i * SZ_64M + off) AND NOT (SZ_64M - 1) = push_bit 26 (of_nat (i + 1))"
    by (simp only: m and_not_mask_shift)
  also have "\<dots> = 0x04000000 + of_nat i * SZ_64M"
    by (simp add: push_bit_eq_mult SZ_64M_def distrib_right)
  finally show ?thesis
    by simp
qed

lemma idx_div:
  assumes "i < 15"
  shows "unat ((of_nat i * SZ_64M :: u32) div SZ_64M) = i" "(of_nat i * SZ_64M :: u32) mod SZ_64M = 0"
proof -
  have "unat (of_nat i * SZ_64M :: u32) = i * 2 ^ 26"
    using assms by (simp add: SZ_64M_def unat_word_ariths unat_of_nat)
  then show "unat ((of_nat i * SZ_64M :: u32) div SZ_64M) = i"
    by (simp add: unat_div SZ_64M_def)
  show "(of_nat i * SZ_64M :: u32) mod SZ_64M = 0"
    using \<open>unat (of_nat i * SZ_64M :: u32) = i * 2 ^ 26\<close>
    by (simp add: word_eq_iff_unsigned [where ?'a = nat] unat_mod SZ_64M_def)
qed

lemma x86_slot_probe_None:
  "x86_slot_probe K Base MemType ms i = None \<longleftrightarrow> (\<forall>m \<in> set ms. \<not> x86_slot_candidate K Base MemType m)"
  by (induction ms arbitrary: i) auto

lemma x86_slot_probe_SomeD:
  "x86_slot_probe K Base MemType ms k = Some i \<Longrightarrow>
     \<exists>n. i = k + n \<and> n < length ms \<and> x86_slot_candidate K Base MemType (ms ! n)
       \<and> (\<forall>j < n. \<not> x86_slot_candidate K Base MemType (ms ! j))"
proof (induction ms arbitrary: k)
  case Nil
  then show ?case by simp
next
  case (Cons m ms)
  show ?case
  proof (cases "x86_slot_candidate K Base MemType m")
    case True
    with Cons.prems have "i = k" by simp
    with True show ?thesis by (intro exI [of _ 0]) simp
  next
    case False
    with Cons.prems have "x86_slot_probe K Base MemType ms (Suc k) = Some i" by simp
    from Cons.IH [OF this] obtain n where n: "i = Suc k + n" "n < length ms"
      "x86_slot_candidate K Base MemType (ms ! n)"
      "\<forall>j < n. \<not> x86_slot_candidate K Base MemType (ms ! j)" by blast
    have "\<forall>j < Suc n. \<not> x86_slot_candidate K Base MemType ((m # ms) ! j)"
    proof (intro allI impI)
      fix j assume "j < Suc n"
      then show "\<not> x86_slot_candidate K Base MemType ((m # ms) ! j)"
        using False n(4) by (cases j) simp_all
    qed
    with n show ?thesis by (intro exI [of _ "Suc n"]) simp
  qed
qed

lemma x86_slot_probe_SomeI:
  "n < length ms \<Longrightarrow> x86_slot_candidate K Base MemType (ms ! n) \<Longrightarrow>
   (\<forall>j < n. \<not> x86_slot_candidate K Base MemType (ms ! j)) \<Longrightarrow>
   x86_slot_probe K Base MemType ms k = Some (k + n)"
proof (induction ms arbitrary: k n)
  case Nil
  then show ?case by simp
next
  case (Cons m ms)
  show ?case
  proof (cases n)
    case 0
    with Cons.prems show ?thesis by simp
  next
    case (Suc n')
    from Cons.prems(3) Suc have nm: "\<not> x86_slot_candidate K Base MemType m" by force
    have "\<forall>j < n'. \<not> x86_slot_candidate K Base MemType (ms ! j)"
    proof (intro allI impI)
      fix j assume "j < n'"
      then have "Suc j < n" using Suc by simp
      with Cons.prems(3) have "\<not> x86_slot_candidate K Base MemType ((m # ms) ! Suc j)" by blast
      then show "\<not> x86_slot_candidate K Base MemType (ms ! j)" by simp
    qed
    moreover from Cons.prems Suc have "n' < length ms" "x86_slot_candidate K Base MemType (ms ! n')"
      by simp_all
    ultimately have "x86_slot_probe K Base MemType ms (Suc k) = Some (Suc k + n')"
      by (rule Cons.IH [rotated 2])
    with nm Suc show ?thesis by simp
  qed
qed

lemma x86_slot_probe_Some:
  "x86_slot_probe K Base MemType ms 0 = Some i \<longleftrightarrow>
     i < length ms \<and> x86_slot_candidate K Base MemType (ms ! i)
     \<and> (\<forall>j < i. \<not> x86_slot_candidate K Base MemType (ms ! j))"
  using x86_slot_probe_SomeD [of K Base MemType ms 0 i]
    x86_slot_probe_SomeI [of i ms K Base MemType 0]
  by auto

lemma reg_write32_frame [simp]:
  "aX86MapSlots (reg_write32 a v s) = aX86MapSlots s"
  "RegWrites (reg_write32 a v s) = RegWrites s @ [(a, v)]"
  by (simp_all add: reg_write32_def)

lemma x86_slot_program_slots [simp]:
  "aX86MapSlots (x86_slot_program i b t s) = aX86MapSlots s"
  by (simp add: x86_slot_program_def Let_def)

lemma x86_slot_clear_slots [simp]:
  "aX86MapSlots (x86_slot_clear i s) = aX86MapSlots s"
  by (simp add: x86_slot_clear_def Let_def)

text \<open>
  Claim C8 (mapping exhaustion). When every x86 mapping slot is live (reference count not
  zero) and none of them holds the 64 MiB base of the address asked for,
  \<^verbatim>\<open>pspStubX86PhysMap\<close> returns \<^verbatim>\<open>ERR_INVALID_STATE\<close> for either memory type, stores no pointer
  and leaves the whole state, so every slot's base, memory type and reference count, as it
  was. (The bases of the live slots need not even differ from each other.)
\<close>

theorem pspStubX86PhysMap_exhausted:
  assumes "\<forall>m \<in> set (aX86MapSlots s). cRefs m \<noteq> 0 \<and> PhysX86AddrBase m \<noteq> PhysX86Addr AND NOT (ucast SZ_64M - 1)"
  shows "pspStubX86PhysMap K s PhysX86Addr fMmio = (ERR_INVALID_STATE K, None, s)"
proof -
  have "x86_slot_probe K (PhysX86Addr AND NOT (ucast SZ_64M - 1)) MemType (take 15 (aX86MapSlots s)) 0 = None"
    for MemType
    using assms by (auto simp: x86_slot_probe_None x86_slot_candidate_def dest: in_set_takeD)
  then show ?thesis
    by (simp add: pspStubX86PhysMap_def Let_def)
qed

theorem pspStubX86PhysMap_exhausted_witness:
  "pspStubX86PhysMap K0
     ((main_init K0 (clock_at 0) (uart_with []) (\<lambda>a. 0) 0x20000)
        \<lparr>aX86MapSlots := map (\<lambda>n. \<lparr>PhysX86AddrBase = push_bit 26 (of_nat n), uMemType = 4, cRefs = 1\<rparr>)
                           [0 ..< 15]\<rparr>)
     0x3c000123 False
   = (ERR_INVALID_STATE K0, None,
      (main_init K0 (clock_at 0) (uart_with []) (\<lambda>a. 0) 0x20000)
        \<lparr>aX86MapSlots := map (\<lambda>n. \<lparr>PhysX86AddrBase = push_bit 26 (of_nat n), uMemType = 4, cRefs = 1\<rparr>)
                           [0 ..< 15]\<rparr>)"
proof (rule pspStubX86PhysMap_exhausted)
  have b: "(0x3c000123 :: u64) AND NOT (ucast SZ_64M - 1) = 0x3c000000"
    by (simp add: SZ_64M_def)
  show "\<forall>m \<in> set (aX86MapSlots
        ((main_init K0 (clock_at 0) (uart_with []) (\<lambda>a. 0) 0x20000)
           \<lparr>aX86MapSlots := map (\<lambda>n. \<lparr>PhysX86AddrBase = push_bit 26 (of_nat n), uMemType = 4, cRefs = 1\<rparr>)
                              [0 ..< 15]\<rparr>)).
      cRefs m \<noteq> 0 \<and> PhysX86AddrBase m \<noteq> 0x3c000123 AND NOT (ucast SZ_64M - 1)"
    by (simp add: b upt_rec)
qed

lemma x86_slot_program_writes:
  "RegWrites (x86_slot_program i b t s) = RegWrites s @
     [(0x03230000 + of_nat i * 4 * 4, ucast (push_bit 6 (drop_bit 32 b) OR (drop_bit 26 b AND 0x3f))),
      (0x03230000 + of_nat i * 4 * 4 + 4, 0x12),
      (0x03230000 + of_nat i * 4 * 4 + 8, t),
      (0x03230000 + of_nat i * 4 * 4 + 12, t),
      (0x032303e0 + of_nat i * 4, 0xffffffff),
      (0x032304d8 + of_nat i * 4, 0xc0000000)]"
  by (simp add: x86_slot_program_def Let_def)

lemma x86_unmap_ptr:
  fixes off :: u32
  assumes "i < 15" "off < 0x04000000"
  shows "pspStubX86PhysUnmapByPtr K s (0x04000000 + of_nat i * SZ_64M + off) =
     (let pMapping = aX86MapSlots s ! i
      in if cRefs pMapping > 0 then
           (let m1 = pMapping\<lparr>cRefs := cRefs pMapping - 1\<rparr>
            in if cRefs m1 = 0 then
                 (INF_SUCCESS,
                  (x86_slot_clear i s)
                    \<lparr>aX86MapSlots := (aX86MapSlots s)
                        [i := m1\<lparr>uMemType := 0, PhysX86AddrBase := NIL_X86PADDR K\<rparr>]\<rparr>)
               else (INF_SUCCESS, s\<lparr>aX86MapSlots := (aX86MapSlots s)[i := m1]\<rparr>))
         else (ERR_INVALID_PARAMETER K, s))"
  using assms
  by (simp add: pspStubX86PhysUnmapByPtr_def idx_of_ptr idx_div Let_def)

lemma pspStubX86PhysMap_Some:
  assumes "x86_slot_probe K (PhysX86Addr AND NOT (ucast SZ_64M - 1)) (if fMmio then 0x6 else 0x4)
             (aX86MapSlots s) 0 = Some i"
    and "length (aX86MapSlots s) = 15"
  shows "pspStubX86PhysMap K s PhysX86Addr fMmio =
     (let Base = PhysX86Addr AND NOT (ucast SZ_64M - 1);
          MemType = (if fMmio then 0x6 else 0x4);
          pMapping = aX86MapSlots s ! i;
          fSetUp = (PhysX86AddrBase pMapping = NIL_X86PADDR K);
          m1 = (if fSetUp then pMapping\<lparr>uMemType := MemType, PhysX86AddrBase := Base\<rparr>
                else pMapping);
          s1 = (if fSetUp then x86_slot_program i Base MemType s else s)
      in (INF_SUCCESS,
          Some (0x04000000 + of_nat i * SZ_64M + ucast (PhysX86Addr - Base)),
          s1\<lparr>aX86MapSlots := (aX86MapSlots s)[i := m1\<lparr>cRefs := cRefs m1 + 1\<rparr>]\<rparr>))"
  using assms by (simp add: pspStubX86PhysMap_def Let_def)

lemma pspStubX86PhysMap_length:
  "length (aX86MapSlots (snd (snd (pspStubX86PhysMap K s PhysX86Addr fMmio)))) = length (aX86MapSlots s)"
  by (simp add: pspStubX86PhysMap_def Let_def split: option.splits)

text \<open>
  Claim C7 (mapping reuse). Let the probe for the base and memory type of an address pick
  slot \<open>i\<close>. Two calls of \<^verbatim>\<open>pspStubX86PhysMap\<close> for addresses of that base and memory
  type both succeed and return pointers into the window of slot \<open>i\<close>,
  \<open>0x04000000 + i * 64M + offset\<close>, hence the same pointer when the two addresses are the
  same; each call adds one to the slot's reference count; the second call writes no control
  register. When the slot was free (sentinel base) before, the first call programs its six
  control registers, once: the two calls leave the slot with reference count 2, and two
  calls of \<^verbatim>\<open>pspStubX86PhysUnmapByPtr\<close> with the pointers succeed and put the slot back to
  the sentinel base, memory type 0 and reference count 0, every other slot as it was. When
  the slot held the mapping already, neither call writes a control register.
\<close>

theorem pspStubX86PhysMap_reuse:
  assumes len: "length (aX86MapSlots s) = 15"
    and Base: "Base = PhysX86Addr AND NOT (ucast SZ_64M - 1)"
    and Base2: "Base = PhysX86Addr2 AND NOT (ucast SZ_64M - 1)"
    and MemType: "MemType = (if fMmio then 0x6 else 0x4)"
    and nonnil: "Base \<noteq> NIL_X86PADDR K"
    and probe: "x86_slot_probe K Base MemType (aX86MapSlots s) 0 = Some i"
    and p: "p = 0x04000000 + of_nat i * SZ_64M + ucast (PhysX86Addr - Base)"
    and p2: "p2 = 0x04000000 + of_nat i * SZ_64M + ucast (PhysX86Addr2 - Base)"
    and map1: "pspStubX86PhysMap K s PhysX86Addr fMmio = (rc1, pv1, s1)"
    and map2: "pspStubX86PhysMap K s1 PhysX86Addr2 fMmio = (rc2, pv2, s2)"
    and unmap1: "pspStubX86PhysUnmapByPtr K s2 p2 = (rc3, s3)"
    and unmap2: "pspStubX86PhysUnmapByPtr K s3 p = (rc4, s4)"
  shows "rc1 = INF_SUCCESS \<and> rc2 = INF_SUCCESS \<and> pv1 = Some p \<and> pv2 = Some p2
    \<and> (PhysX86Addr2 = PhysX86Addr \<longrightarrow> pv2 = pv1)
    \<and> cRefs (aX86MapSlots s1 ! i) = cRefs (aX86MapSlots s ! i) + 1
    \<and> cRefs (aX86MapSlots s2 ! i) = cRefs (aX86MapSlots s1 ! i) + 1
    \<and> RegWrites s2 = RegWrites s1
    \<and> (PhysX86AddrBase (aX86MapSlots s ! i) \<noteq> NIL_X86PADDR K \<longrightarrow> RegWrites s1 = RegWrites s)
    \<and> (PhysX86AddrBase (aX86MapSlots s ! i) = NIL_X86PADDR K \<longrightarrow>
         RegWrites s1 = RegWrites s @
           [(0x03230000 + of_nat i * 4 * 4,
             ucast (push_bit 6 (drop_bit 32 Base) OR (drop_bit 26 Base AND 0x3f))),
            (0x03230000 + of_nat i * 4 * 4 + 4, 0x12),
            (0x03230000 + of_nat i * 4 * 4 + 8, MemType),
            (0x03230000 + of_nat i * 4 * 4 + 12, MemType),
            (0x032303e0 + of_nat i * 4, 0xffffffff),
            (0x032304d8 + of_nat i * 4, 0xc0000000)]
         \<and> aX86MapSlots s1 ! i = \<lparr>PhysX86AddrBase = Base, uMemType = MemType, cRefs = 1\<rparr>
         \<and> aX86MapSlots s2 ! i = \<lparr>PhysX86AddrBase = Base, uMemType = MemType, cRefs = 2\<rparr>
         \<and> rc3 = INF_SUCCESS \<and> rc4 = INF_SUCCESS
         \<and> aX86MapSlots s3 ! i = \<lparr>PhysX86AddrBase = Base, uMemType = MemType, cRefs = 1\<rparr>
         \<and> aX86MapSlots s4 ! i = \<lparr>PhysX86AddrBase = NIL_X86PADDR K, uMemType = 0, cRefs = 0\<rparr>
         \<and> aX86MapSlots s4 =
             (aX86MapSlots s)[i := \<lparr>PhysX86AddrBase = NIL_X86PADDR K, uMemType = 0, cRefs = 0\<rparr>])"
proof -
  let ?ms = "aX86MapSlots s"
  let ?m = "?ms ! i"
  from probe have i: "i < 15" and cand: "x86_slot_candidate K Base MemType ?m"
    and first: "\<forall>j < i. \<not> x86_slot_candidate K Base MemType (?ms ! j)"
    using len by (simp_all add: x86_slot_probe_Some)
  define m1 where "m1 = (if PhysX86AddrBase ?m = NIL_X86PADDR K
      then ?m\<lparr>uMemType := MemType, PhysX86AddrBase := Base\<rparr> else ?m)\<lparr>cRefs := cRefs
        (if PhysX86AddrBase ?m = NIL_X86PADDR K
      then ?m\<lparr>uMemType := MemType, PhysX86AddrBase := Base\<rparr> else ?m) + 1\<rparr>"
  define t1 where "t1 = (if PhysX86AddrBase ?m = NIL_X86PADDR K
      then x86_slot_program i Base MemType s else s)"
  have "pspStubX86PhysMap K s PhysX86Addr fMmio = (INF_SUCCESS, Some p, t1\<lparr>aX86MapSlots := ?ms[i := m1]\<rparr>)"
    using probe len unfolding Base MemType p m1_def t1_def
    by (simp only: pspStubX86PhysMap_Some Let_def)
  with map1 have r1: "rc1 = INF_SUCCESS" "pv1 = Some p" "s1 = t1\<lparr>aX86MapSlots := ?ms[i := m1]\<rparr>"
    by simp_all
  have m1: "PhysX86AddrBase m1 = Base" "uMemType m1 = MemType" "cRefs m1 = cRefs ?m + 1"
    using cand nonnil by (auto simp: m1_def x86_slot_candidate_def)
  have slots1: "aX86MapSlots s1 = ?ms[i := m1]"
    by (simp add: r1 t1_def)
  have probe1: "x86_slot_probe K Base MemType (aX86MapSlots s1) 0 = Some i"
    using i len first m1 by (simp add: x86_slot_probe_Some slots1 x86_slot_candidate_def)
  have len1: "length (aX86MapSlots s1) = 15"
    by (simp add: slots1 len)
  have nn1: "PhysX86AddrBase (aX86MapSlots s1 ! i) \<noteq> NIL_X86PADDR K"
    using i len m1 nonnil by (simp add: slots1)
  have s1i: "aX86MapSlots s1 ! i = m1"
    using i len by (simp add: slots1)
  have "pspStubX86PhysMap K s1 PhysX86Addr2 fMmio =
      (INF_SUCCESS, Some p2, s1\<lparr>aX86MapSlots := (aX86MapSlots s1)[i := m1\<lparr>cRefs := cRefs m1 + 1\<rparr>]\<rparr>)"
    using pspStubX86PhysMap_Some [OF probe1 [unfolded Base2 MemType] len1] nn1
    by (simp add: Let_def s1i p2 Base2)
  with map2 have r2: "rc2 = INF_SUCCESS" "pv2 = Some p2"
      "s2 = s1\<lparr>aX86MapSlots := (aX86MapSlots s1)[i := m1\<lparr>cRefs := cRefs m1 + 1\<rparr>]\<rparr>"
    by simp_all
  have same: "pv2 = pv1" if "PhysX86Addr2 = PhysX86Addr"
    using that by (simp add: r1 r2 p p2)
  have off: "(ucast (PhysX86Addr - Base) :: u32) < 0x04000000"
    unfolding Base by (rule offStart_less)
  have off2: "(ucast (PhysX86Addr2 - Base) :: u32) < 0x04000000"
    unfolding Base2 by (rule offStart_less)
  have A: "cRefs (aX86MapSlots s1 ! i) = cRefs ?m + 1"
    using i len m1 by (simp add: slots1)
  have B: "cRefs (aX86MapSlots s2 ! i) = cRefs (aX86MapSlots s1 ! i) + 1"
    using i len by (simp add: r2 slots1)
  have C: "RegWrites s2 = RegWrites s1"
    by (simp add: r2)
  have D: "RegWrites s1 = RegWrites s" if "PhysX86AddrBase ?m \<noteq> NIL_X86PADDR K"
    using that by (simp add: r1 t1_def)
  have E: "RegWrites s1 = RegWrites s @
           [(0x03230000 + of_nat i * 4 * 4,
             ucast (push_bit 6 (drop_bit 32 Base) OR (drop_bit 26 Base AND 0x3f))),
            (0x03230000 + of_nat i * 4 * 4 + 4, 0x12),
            (0x03230000 + of_nat i * 4 * 4 + 8, MemType),
            (0x03230000 + of_nat i * 4 * 4 + 12, MemType),
            (0x032303e0 + of_nat i * 4, 0xffffffff),
            (0x032304d8 + of_nat i * 4, 0xc0000000)]" if "PhysX86AddrBase ?m = NIL_X86PADDR K"
    using that by (simp add: r1 t1_def x86_slot_program_writes)
  have F: "aX86MapSlots s1 ! i = \<lparr>PhysX86AddrBase = Base, uMemType = MemType, cRefs = 1\<rparr>
         \<and> aX86MapSlots s2 ! i = \<lparr>PhysX86AddrBase = Base, uMemType = MemType, cRefs = 2\<rparr>
         \<and> rc3 = INF_SUCCESS \<and> rc4 = INF_SUCCESS
         \<and> aX86MapSlots s3 ! i = \<lparr>PhysX86AddrBase = Base, uMemType = MemType, cRefs = 1\<rparr>
         \<and> aX86MapSlots s4 ! i = \<lparr>PhysX86AddrBase = NIL_X86PADDR K, uMemType = 0, cRefs = 0\<rparr>
         \<and> aX86MapSlots s4 =
             (aX86MapSlots s)[i := \<lparr>PhysX86AddrBase = NIL_X86PADDR K, uMemType = 0, cRefs = 0\<rparr>]" if nil: "PhysX86AddrBase ?m = NIL_X86PADDR K"
  proof -
    from cand nil nonnil have refs0: "cRefs ?m = 0"
      by (auto simp: x86_slot_candidate_def)
    have m1eq: "m1 = \<lparr>PhysX86AddrBase = Base, uMemType = MemType, cRefs = 1\<rparr>"
      using nil refs0 by (simp add: m1_def)
    have s2slots: "aX86MapSlots s2 = ?ms[i := \<lparr>PhysX86AddrBase = Base, uMemType = MemType, cRefs = 2\<rparr>]"
      by (simp add: r2 slots1 m1eq)
    have "pspStubX86PhysUnmapByPtr K s2 p2 = (INF_SUCCESS, s2\<lparr>aX86MapSlots :=
        ?ms[i := \<lparr>PhysX86AddrBase = Base, uMemType = MemType, cRefs = 1\<rparr>]\<rparr>)"
      using i len by (simp add: p2 x86_unmap_ptr [OF i off2] s2slots Let_def)
    with unmap1 have u1: "rc3 = INF_SUCCESS"
       "aX86MapSlots s3 = ?ms[i := \<lparr>PhysX86AddrBase = Base, uMemType = MemType, cRefs = 1\<rparr>]"
      by auto
    have "pspStubX86PhysUnmapByPtr K s3 p = (INF_SUCCESS, (x86_slot_clear i s3)\<lparr>aX86MapSlots :=
        ?ms[i := \<lparr>PhysX86AddrBase = NIL_X86PADDR K, uMemType = 0, cRefs = 0\<rparr>]\<rparr>)"
      using i len by (simp add: p x86_unmap_ptr [OF i off] u1 Let_def)
    with unmap2 have u2: "rc4 = INF_SUCCESS"
       "aX86MapSlots s4 = ?ms[i := \<lparr>PhysX86AddrBase = NIL_X86PADDR K, uMemType = 0, cRefs = 0\<rparr>]"
      by auto
    show ?thesis
      using i len by (simp add: slots1 m1eq s2slots u1 u2)
  qed
  show ?thesis
    using r1 r2 same A B C D E F by blast
qed

theorem pspStubX86PhysMap_reuse_witness:
  "(let s = main_init K0 (clock_at 0) (uart_with []) (\<lambda>a. 0) 0x20000;
        r1 = pspStubX86PhysMap K0 s 0xfffdfc0003f8 True;
        r2 = pspStubX86PhysMap K0 (snd (snd r1)) 0xfffdfc0003f8 True;
        r3 = pspStubX86PhysUnmapByPtr K0 (snd (snd r2)) 0x040003f8;
        r4 = pspStubX86PhysUnmapByPtr K0 (snd r3) 0x040003f8
    in fst r1 = INF_SUCCESS \<and> fst r2 = INF_SUCCESS
       \<and> fst (snd r1) = Some 0x040003f8 \<and> fst (snd r2) = Some 0x040003f8
       \<and> aX86MapSlots (snd (snd r1)) ! 0 = \<lparr>PhysX86AddrBase = 0xfffdfc000000, uMemType = 6, cRefs = 1\<rparr>
       \<and> aX86MapSlots (snd (snd r2)) ! 0 = \<lparr>PhysX86AddrBase = 0xfffdfc000000, uMemType = 6, cRefs = 2\<rparr>
       \<and> RegWrites (snd (snd r1)) =
             [(0x03230000, 0x3fff7f), (0x03230004, 0x12), (0x03230008, 6), (0x0323000c, 6),
              (0x032303e0, 0xffffffff), (0x032304d8, 0xc0000000)]
       \<and> RegWrites (snd (snd r2)) = RegWrites (snd (snd r1))
       \<and> fst r3 = INF_SUCCESS \<and> fst r4 = INF_SUCCESS
       \<and> aX86MapSlots (snd r4) ! 0 = \<lparr>PhysX86AddrBase = NIL_X86PADDR K0, uMemType = 0, cRefs = 0\<rparr>)
   \<and> (let s = main_init K0 (clock_at 0) (uart_with []) (\<lambda>a. 0) 0x20000;
          r1 = pspStubX86PhysMap K0 s 0xfffdfc0003f8 True;
          r2 = pspStubX86PhysMap K0 (snd (snd r1)) 0xfffdfc0003f8 True;
          r3 = pspStubX86PhysMap K0 (snd (snd r2)) 0xfffdfc000010 True
      in fst r2 = INF_SUCCESS \<and> fst r3 = INF_SUCCESS
         \<and> fst (snd r2) = Some 0x040003f8 \<and> fst (snd r3) = Some 0x04000010
         \<and> cRefs (aX86MapSlots (snd (snd r3)) ! 0) = 3
         \<and> RegWrites (snd (snd r3)) = RegWrites (snd (snd r1)))"
proof -
  define s where "s = main_init K0 (clock_at 0) (uart_with []) (\<lambda>a. 0) 0x20000"
  have slots: "aX86MapSlots s = replicate 15 \<lparr>PhysX86AddrBase = NIL_X86PADDR K0, uMemType = 0, cRefs = 0\<rparr>"
    and regs: "RegWrites s = []"
    by (simp_all add: s_def main_init_def pspStubPduRecvReset_def)
  have w1: "length (aX86MapSlots s) = 15" by (simp add: slots)
  have w2: "(0xfffdfc000000 :: u64) = 0xfffdfc0003f8 AND NOT (ucast SZ_64M - 1)"
    by (simp add: SZ_64M_def)
  have w2': "(0xfffdfc000000 :: u64) = 0xfffdfc000010 AND NOT (ucast SZ_64M - 1)"
    by (simp add: SZ_64M_def)
  have w3: "(6 :: u32) = (if True then 0x6 else 0x4)" by simp
  have w4: "(0xfffdfc000000 :: u64) \<noteq> NIL_X86PADDR K0" by (simp add: K0_def)
  have w5: "x86_slot_probe K0 0xfffdfc000000 6 (aX86MapSlots s) 0 = Some 0"
    by (simp add: slots x86_slot_candidate_def eval_nat_numeral)
  have w6: "(0x040003f8 :: u32)
      = 0x04000000 + of_nat 0 * SZ_64M + ucast ((0xfffdfc0003f8 :: u64) - 0xfffdfc000000)"
    by simp
  have w6': "(0x04000010 :: u32)
      = 0x04000000 + of_nat 0 * SZ_64M + ucast ((0xfffdfc000010 :: u64) - 0xfffdfc000000)"
    by simp
  have w7: "PhysX86AddrBase (aX86MapSlots s ! 0) = NIL_X86PADDR K0"
    by (simp add: slots)
  obtain rc1 pv1 s1 where m1: "pspStubX86PhysMap K0 s 0xfffdfc0003f8 True = (rc1, pv1, s1)"
    using prod_cases3 by blast
  obtain rc2 pv2 s2 where m2: "pspStubX86PhysMap K0 s1 0xfffdfc0003f8 True = (rc2, pv2, s2)"
    using prod_cases3 by blast
  obtain rc3 s3 where u1: "pspStubX86PhysUnmapByPtr K0 s2 0x040003f8 = (rc3, s3)"
    by fastforce
  obtain rc4 s4 where u2: "pspStubX86PhysUnmapByPtr K0 s3 0x040003f8 = (rc4, s4)"
    by fastforce
  note A = pspStubX86PhysMap_reuse [OF w1 w2 w2 w3 w4 w5 w6 w6 m1 m2 u1 u2]
  have slots1: "aX86MapSlots s1 ! 0 = \<lparr>PhysX86AddrBase = 0xfffdfc000000, uMemType = 6, cRefs = 1\<rparr>"
    using A w7 by simp
  have s1: "s1 = snd (snd (pspStubX86PhysMap K0 s 0xfffdfc0003f8 True))"
    by (simp add: m1)
  have len1: "length (aX86MapSlots s1) = 15"
    unfolding s1 by (simp only: pspStubX86PhysMap_length w1)
  have w5': "x86_slot_probe K0 0xfffdfc000000 6 (aX86MapSlots s1) 0 = Some 0"
    using len1 slots1 by (simp add: x86_slot_probe_Some x86_slot_candidate_def)
  have w7': "PhysX86AddrBase (aX86MapSlots s1 ! 0) \<noteq> NIL_X86PADDR K0"
    using slots1 by (simp add: K0_def)
  obtain rc5 pv5 s5 where m3: "pspStubX86PhysMap K0 s2 0xfffdfc000010 True = (rc5, pv5, s5)"
    using prod_cases3 by blast
  obtain rc6 s6 where u3: "pspStubX86PhysUnmapByPtr K0 s5 0x04000010 = (rc6, s6)"
    by fastforce
  obtain rc7 s7 where u4: "pspStubX86PhysUnmapByPtr K0 s6 0x040003f8 = (rc7, s7)"
    by fastforce
  note B = pspStubX86PhysMap_reuse [OF len1 w2 w2' w3 w4 w5' w6 w6' m2 m3 u3 u4]
  have first: "(let s = main_init K0 (clock_at 0) (uart_with []) (\<lambda>a. 0) 0x20000;
        r1 = pspStubX86PhysMap K0 s 0xfffdfc0003f8 True;
        r2 = pspStubX86PhysMap K0 (snd (snd r1)) 0xfffdfc0003f8 True;
        r3 = pspStubX86PhysUnmapByPtr K0 (snd (snd r2)) 0x040003f8;
        r4 = pspStubX86PhysUnmapByPtr K0 (snd r3) 0x040003f8
    in fst r1 = INF_SUCCESS \<and> fst r2 = INF_SUCCESS
       \<and> fst (snd r1) = Some 0x040003f8 \<and> fst (snd r2) = Some 0x040003f8
       \<and> aX86MapSlots (snd (snd r1)) ! 0 = \<lparr>PhysX86AddrBase = 0xfffdfc000000, uMemType = 6, cRefs = 1\<rparr>
       \<and> aX86MapSlots (snd (snd r2)) ! 0 = \<lparr>PhysX86AddrBase = 0xfffdfc000000, uMemType = 6, cRefs = 2\<rparr>
       \<and> RegWrites (snd (snd r1)) =
             [(0x03230000, 0x3fff7f), (0x03230004, 0x12), (0x03230008, 6), (0x0323000c, 6),
              (0x032303e0, 0xffffffff), (0x032304d8, 0xc0000000)]
       \<and> RegWrites (snd (snd r2)) = RegWrites (snd (snd r1))
       \<and> fst r3 = INF_SUCCESS \<and> fst r4 = INF_SUCCESS
       \<and> aX86MapSlots (snd r4) ! 0 = \<lparr>PhysX86AddrBase = NIL_X86PADDR K0, uMemType = 0, cRefs = 0\<rparr>)"
    using A w7 regs w1
    unfolding s_def [symmetric] by (simp add: Let_def m1 m2 u1 u2)
  have second: "(let s = main_init K0 (clock_at 0) (uart_with []) (\<lambda>a. 0) 0x20000;
          r1 = pspStubX86PhysMap K0 s 0xfffdfc0003f8 True;
          r2 = pspStubX86PhysMap K0 (snd (snd r1)) 0xfffdfc0003f8 True;
          r3 = pspStubX86PhysMap K0 (snd (snd r2)) 0xfffdfc000010 True
      in fst r2 = INF_SUCCESS \<and> fst r3 = INF_SUCCESS
         \<and> fst (snd r2) = Some 0x040003f8 \<and> fst (snd r3) = Some 0x04000010
         \<and> cRefs (aX86MapSlots (snd (snd r3)) ! 0) = 3
         \<and> RegWrites (snd (snd r3)) = RegWrites (snd (snd r1)))"
    using B w7' slots1
    unfolding s_def [symmetric] by (simp add: Let_def m1 m2 m3)
  show ?thesis
    using first second by (rule conjI)
qed


section \<open>Properties of the send path\<close>



lemma two_complement: "(0xffffffff - c) + 1 = - (c :: u32)"
  by simp

lemma PSPUartWrite_tx:
  "PSPUartWrite u bs = (rc, u') \<Longrightarrow> rc = 0 \<Longrightarrow> TxLine u' = TxLine u @ bs"
  by (auto simp: PSPUartWrite_def Let_def split: if_splits)

lemma PSPUartWrite_tx_fail:
  "PSPUartWrite u bs = (rc, u') \<Longrightarrow> rc \<noteq> 0 \<Longrightarrow> TxLine u' = TxLine u"
  by (auto simp: PSPUartWrite_def Let_def split: if_splits)

lemma pspStubPduSend_ok:
  assumes "pspStubPduBuild K pThis rc idc tag pl = (h, f, s2)"
    and "pspStubPduSend K pThis rc idc tag pv pl = (r, s')"
    and "r = 0"
  shows "TxLine (Uart s') = TxLine (Uart pThis) @ PduHdr_bytes h @ (if pv then pl else [])
           @ PduFooter_bytes f"
proof -
  have u: "Uart s2 = Uart pThis"
    using assms(1) by (auto simp: pspStubPduBuild_def pspStubGetMillies_def Let_def)
  obtain rc1 u1 where w1: "PSPUartWrite (Uart s2) (PduHdr_bytes h) = (rc1, u1)" by fastforce
  obtain rc2 u2 where w2: "(if rc1 = 0 \<and> pv \<and> pl \<noteq> [] then PSPUartWrite u1 pl else (rc1, u1)) = (rc2, u2)"
    by fastforce
  obtain rc3 u3 where w3: "(if rc2 = 0 then PSPUartWrite u2 (PduFooter_bytes f) else (rc2, u2)) = (rc3, u3)"
    by fastforce
  have e: "r = rc3" "Uart s' = u3"
    using assms(2) by (auto simp: pspStubPduSend_def assms(1) w1 w2 w3)
  have z3: "rc3 = 0" using e assms(3) by simp
  have z2: "rc2 = 0" using w3 z3 by (auto split: if_splits)
  have z1: "rc1 = 0" using w2 z2 by (auto split: if_splits)
  have t1: "TxLine u1 = TxLine (Uart pThis) @ PduHdr_bytes h"
    using PSPUartWrite_tx [OF w1 z1] u by simp
  have t2: "TxLine u2 = TxLine u1 @ (if pv then pl else [])"
  proof (cases "pv \<and> pl \<noteq> []")
    case True
    with w2 z1 have "PSPUartWrite u1 pl = (rc2, u2)" by simp
    from PSPUartWrite_tx [OF this z2] True show ?thesis by simp
  next
    case False
    with w2 show ?thesis by auto
  qed
  have t3: "TxLine u3 = TxLine u2 @ PduFooter_bytes f"
    using w3 z2 z3 PSPUartWrite_tx [of u2 "PduFooter_bytes f" rc3 u3] by simp
  show ?thesis by (simp add: e t1 t2 t3)
qed




lemma build_counter:
  "cPdus (fst (pspStubPduBuild K pThis rc idc tag pl)) = cPdusSent pThis + 1"
  by (simp add: pspStubPduBuild_def pspStubGetMillies_def Let_def)

lemma build_state:
  "snd (snd (pspStubPduBuild K pThis rc idc tag pl)) =
     pThis\<lparr>cPdusSent := cPdusSent pThis + 1, Timer := (Timer pThis)\<lparr>cReads := Suc (cReads (Timer pThis))\<rparr>\<rparr>"
  by (simp add: pspStubPduBuild_def pspStubGetMillies_def Let_def)

lemma send_state:
  "snd (pspStubPduSend K pThis rc idc tag pv pl) =
     pThis\<lparr>cPdusSent := cPdusSent pThis + 1,
           Timer := (Timer pThis)\<lparr>cReads := Suc (cReads (Timer pThis))\<rparr>,
           Uart := Uart (snd (pspStubPduSend K pThis rc idc tag pv pl))\<rparr>"
proof -
  obtain h f s2 where b: "pspStubPduBuild K pThis rc idc tag pl = (h, f, s2)"
    using prod_cases3 by blast
  have s2: "s2 = pThis\<lparr>cPdusSent := cPdusSent pThis + 1, Timer := (Timer pThis)\<lparr>cReads := Suc (cReads (Timer pThis))\<rparr>\<rparr>"
    using build_state [of K pThis rc idc tag pl] by (simp add: b)
  obtain rc1 u1 where w1: "PSPUartWrite (Uart s2) (PduHdr_bytes h) = (rc1, u1)" by fastforce
  obtain rc2 u2 where w2: "(if rc1 = 0 \<and> pv \<and> pl \<noteq> [] then PSPUartWrite u1 pl else (rc1, u1)) = (rc2, u2)"
    by fastforce
  obtain r u where w3: "(if rc2 = 0 then PSPUartWrite u2 (PduFooter_bytes f) else (rc2, u2)) = (r, u)"
    by fastforce
  have su: "pspStubPduSend K pThis rc idc tag pv pl = (r, s2\<lparr>Uart := u\<rparr>)"
    by (simp add: pspStubPduSend_def b w1 w2 w3)
  show ?thesis
    by (simp add: su s2)
qed

lemma send_counter:
  "cPdusSent (snd (pspStubPduSend K pThis rc idc tag pv pl)) = cPdusSent pThis + 1"
  by (subst send_state) simp

lemma counters_eq:
  "pspStubPduSend_counters K pThis reqs
     = map (\<lambda>k. cPdusSent pThis + of_nat k) [1 ..< Suc (length reqs)]"
proof (induction reqs arbitrary: pThis)
  case Nil
  then show ?case by simp
next
  case (Cons r reqs)
  obtain rc idc tag pv pl where r: "r = (rc, idc, tag, pv, pl)" by (cases r) auto
  let ?c = "cPdusSent pThis"
  have sh: "map (\<lambda>k. ?c + 1 + of_nat k) [1 ..< Suc (length reqs)]
          = map (\<lambda>k. ?c + of_nat k) [2 ..< Suc (Suc (length reqs))]"
  proof -
    have "[2 ..< Suc (Suc (length reqs))] = map Suc [1 ..< Suc (length reqs)]"
      by (simp only: map_Suc_upt numeral_2_eq_2 One_nat_def)
    then show ?thesis
      by (simp only: map_map o_def) (simp add: add.assoc)
  qed
  have "(1 :: nat) < Suc (Suc (length reqs))" by simp
  then have hd: "[1 ..< Suc (Suc (length reqs))] = 1 # [2 ..< Suc (Suc (length reqs))]"
    by (simp only: upt_conv_Cons Suc_1)
  have "pspStubPduSend_counters K pThis (r # reqs)
          = (?c + 1) # map (\<lambda>k. ?c + 1 + of_nat k) [1 ..< Suc (length reqs)]"
    by (simp add: r build_counter Cons.IH send_counter)
  also have "\<dots> = map (\<lambda>k. ?c + of_nat k) [1 ..< Suc (length (r # reqs))]"
    by (simp only: sh length_Cons hd list.map) simp
  finally show ?case .
qed

section \<open>Properties of the receive path\<close>

lemma reset_frame [simp]:
  "Uart (pspStubPduRecvReset s) = Uart s" "Timer (pspStubPduRecvReset s) = Timer s"
  "fConnected (pspStubPduRecvReset s) = fConnected s" "cPdusSent (pspStubPduRecvReset s) = cPdusSent s"
  "cPduRecvNext (pspStubPduRecvReset s) = cPduRecvNext s" "abPdu (pspStubPduRecvReset s) = abPdu s"
  "cBeaconsSent (pspStubPduRecvReset s) = cBeaconsSent s"
  by (simp_all add: pspStubPduRecvReset_def)

lemma advance_frame:
  assumes "pspStubPduRecvAdvance K s = (rc, pp, s')"
  shows "Uart s' = Uart s \<and> Timer s' = Timer s \<and> fConnected s' = fConnected s
     \<and> cPdusSent s' = cPdusSent s \<and> abPdu s' = abPdu s \<and> cBeaconsSent s' = cBeaconsSent s"
  using assms
  by (auto simp: pspStubPduRecvAdvance_def Let_def split: PSPSERIALPDURECVSTATE.splits if_splits)

lemma advance_next:
  assumes "pspStubPduRecvAdvance K s = (rc, pp, s')"
  shows "(pp = Some 0 \<and> rc = 0 \<and> cPduRecvNext s' = cPduRecvNext s + 1
            \<and> enmPduRecvState s = PSPSERIALPDURECVSTATE_FOOTER \<and> pspStubPduValidate K s 0 = 0)
         \<or> (pp = None \<and> cPduRecvNext s' = cPduRecvNext s)"
  using assms
  by (auto simp: pspStubPduRecvAdvance_def Let_def split: PSPSERIALPDURECVSTATE.splits if_splits)

lemma uart_avail_frame:
  "PSPUartGetDataAvail u = (n, u') \<Longrightarrow> TxLine u' = TxLine u \<and> WrStatus u' = WrStatus u"
  by (auto simp: PSPUartGetDataAvail_def Let_def split: list.splits)

lemma uart_read_frame:
  "PSPUartRead u n = (rc, d, u') \<Longrightarrow> TxLine u' = TxLine u \<and> WrStatus u' = WrStatus u"
  by (auto simp: PSPUartRead_def Let_def split: if_splits)

lemma body_frame:
  assumes "pspStubPduRecv_body K s rc pPdu = (brk, rc1, pPdu1, s1)"
  shows "TxLine (Uart s1) = TxLine (Uart s) \<and> WrStatus (Uart s1) = WrStatus (Uart s)
     \<and> Timer s1 = Timer s \<and> fConnected s1 = fConnected s
     \<and> cPdusSent s1 = cPdusSent s \<and> cBeaconsSent s1 = cBeaconsSent s
     \<and> (brk \<longrightarrow> rc1 = 0 \<and> pPdu1 = Some 0 \<and> cPduRecvNext s1 = cPduRecvNext s + 1)
     \<and> (\<not> brk \<longrightarrow> cPduRecvNext s1 = cPduRecvNext s \<and> (pPdu = None \<longrightarrow> pPdu1 = None))"
proof -
  obtain cbAvail u1 where a: "PSPUartGetDataAvail (Uart s) = (cbAvail, u1)" by fastforce
  note fa = uart_avail_frame [OF a]
  show ?thesis
  proof (cases "cbAvail = 0")
    case True
    with assms a fa show ?thesis
      by (auto simp: pspStubPduRecv_body_def Let_def)
  next
    case False
    obtain rcr d u2 where r: "PSPUartRead u1 (unat (min cbAvail (cbPduRecvLeft s))) = (rcr, d, u2)"
      using prod_cases3 by blast
    note fr = uart_read_frame [OF r]
    show ?thesis
    proof (cases "rcr = 0")
      case rz: False
      with assms a r False fa fr show ?thesis
        by (auto simp: pspStubPduRecv_body_def Let_def)
    next
      case True
      define s3 where "s3 = s\<lparr>Uart := u2,
          abPdu := buf_write (abPdu s) (unat (offPduRecv s)) d,
          offPduRecv := offPduRecv s + min cbAvail (cbPduRecvLeft s),
          cbPduRecvLeft := cbPduRecvLeft s - min cbAvail (cbPduRecvLeft s)\<rparr>"
      show ?thesis
      proof (cases "cbPduRecvLeft s3 = 0")
        case nz: False
        with assms a r False True fa fr show ?thesis
          by (auto simp: pspStubPduRecv_body_def Let_def s3_def)
      next
        case z: True
        obtain rc2 pp s4 where adv: "pspStubPduRecvAdvance K s3 = (rc2, pp, s4)"
          using prod_cases3 by blast
        have res: "brk = (rc2 = 0 \<and> pp \<noteq> None)" "rc1 = rc2" "pPdu1 = pp" "s1 = s4"
          using assms a r False True z adv
          by (auto simp: pspStubPduRecv_body_def Let_def s3_def)
        from advance_frame [OF adv] advance_next [OF adv] fa fr
        show ?thesis
          by (auto simp: res s3_def)
      qed
    qed
  qed
qed

lemma millies_frame:
  "pspStubGetMillies s = (ts, s') \<Longrightarrow>
     ts = Millies (Timer s) (cReads (Timer s))
     \<and> s' = s\<lparr>Timer := (Timer s)\<lparr>cReads := Suc (cReads (Timer s))\<rparr>\<rparr>"
  by (auto simp: pspStubGetMillies_def)

lemma loop_frame:
  "pspStubPduRecv_loop n K ts cM s rc None = Returns (rc', pp, s') \<Longrightarrow>
     TxLine (Uart s') = TxLine (Uart s) \<and> WrStatus (Uart s') = WrStatus (Uart s)
     \<and> fConnected s' = fConnected s \<and> cPdusSent s' = cPdusSent s
     \<and> cBeaconsSent s' = cBeaconsSent s \<and> Millies (Timer s') = Millies (Timer s)
     \<and> ((pp = Some 0 \<and> rc' = 0 \<and> cPduRecvNext s' = cPduRecvNext s + 1)
          \<or> (pp = None \<and> cPduRecvNext s' = cPduRecvNext s))"
proof (induction n arbitrary: s rc)
  case 0
  then show ?case by simp
next
  case (Suc n)
  obtain brk rc1 pPdu1 s1 where b: "pspStubPduRecv_body K s rc None = (brk, rc1, pPdu1, s1)"
    using prod_cases4 by blast
  note f = body_frame [OF b]
  show ?case
  proof (cases brk)
    case True
    with Suc.prems b f show ?thesis by auto
  next
    case False
    with f have p1: "pPdu1 = None" and n1: "cPduRecvNext s1 = cPduRecvNext s" by auto
    obtain t s2 where g: "pspStubGetMillies s1 = (t, s2)" by fastforce
    from millies_frame [OF g] have s2: "s2 = s1\<lparr>Timer := (Timer s1)\<lparr>cReads := Suc (cReads (Timer s1))\<rparr>\<rparr>"
      by simp
    have step: "pspStubPduRecv_loop (Suc n) K ts cM s rc None =
        (if rc1 = 0 then
           (if t - ts < cM \<or> cM = PSP_SERIAL_STUB_INDEFINITE_WAIT
            then pspStubPduRecv_loop n K ts cM s2 rc1 None else Returns (rc1, None, s2))
         else if cM = PSP_SERIAL_STUB_INDEFINITE_WAIT
           then pspStubPduRecv_loop n K ts cM s1 rc1 None else Returns (rc1, None, s1))"
      by (simp add: b False p1 g)
    show ?thesis
    proof (cases "rc1 = 0")
      case True
      show ?thesis
      proof (cases "t - ts < cM \<or> cM = PSP_SERIAL_STUB_INDEFINITE_WAIT")
        case c: True
        with Suc.prems step True
        have "pspStubPduRecv_loop n K ts cM s2 rc1 None = Returns (rc', pp, s')" by simp
        from Suc.IH [OF this] f n1 show ?thesis by (simp add: s2)
      next
        case c: False
        with Suc.prems step True have "rc' = rc1" "pp = None" "s' = s2" by simp_all
        with f n1 show ?thesis by (simp add: s2)
      qed
    next
      case nz: False
      show ?thesis
      proof (cases "cM = PSP_SERIAL_STUB_INDEFINITE_WAIT")
        case True
        with Suc.prems step nz
        have "pspStubPduRecv_loop n K ts cM s1 rc1 None = Returns (rc', pp, s')" by simp
        from Suc.IH [OF this] f n1 show ?thesis by simp
      next
        case False
        with Suc.prems step nz have "rc' = rc1" "pp = None" "s' = s1" by simp_all
        with f n1 show ?thesis by simp
      qed
    qed
  qed
qed

lemma loop_returns:
  assumes "cM \<noteq> PSP_SERIAL_STUB_INDEFINITE_WAIT"
    and "\<exists>k < n. cM \<le> Millies (Timer s) (cReads (Timer s) + k) - ts"
  shows "\<exists>r. pspStubPduRecv_loop n K ts cM s rc pPdu = Returns r"
  using assms(2)
proof (induction n arbitrary: s rc pPdu)
  case 0
  then show ?case by simp
next
  case (Suc n)
  obtain brk rc1 pPdu1 s1 where b: "pspStubPduRecv_body K s rc pPdu = (brk, rc1, pPdu1, s1)"
    using prod_cases4 by blast
  from body_frame [OF b] have tm: "Timer s1 = Timer s" by simp
  obtain t s2 where g: "pspStubGetMillies s1 = (t, s2)" by fastforce
  from millies_frame [OF g] tm
  have t: "t = Millies (Timer s) (cReads (Timer s))"
    and s2: "Timer s2 = (Timer s)\<lparr>cReads := Suc (cReads (Timer s))\<rparr>"
    by simp_all
  show ?case
  proof (cases "\<not> brk \<and> rc1 = 0 \<and> t - ts < cM")
    case False
    with b g assms(1) show ?thesis by auto
  next
    case True
    from Suc.prems obtain k where k: "k < Suc n" "cM \<le> Millies (Timer s) (cReads (Timer s) + k) - ts"
      by blast
    have "k \<noteq> 0"
    proof
      assume "k = 0"
      with k(2) t have "cM \<le> t - ts" by simp
      with True show False using leD by blast
    qed
    then obtain k' where k': "k = Suc k'" by (cases k) auto
    with k have "\<exists>j < n. cM \<le> Millies (Timer s2) (cReads (Timer s2) + j) - ts"
      by (auto simp: s2 intro!: exI [of _ k'])
    from Suc.IH [OF this] True b g show ?thesis by simp
  qed
qed

lemma recv_frame:
  assumes "pspStubPduRecv n K s cM = Returns (rc, pp, s')"
  shows "TxLine (Uart s') = TxLine (Uart s) \<and> WrStatus (Uart s') = WrStatus (Uart s)
     \<and> fConnected s' = fConnected s \<and> cPdusSent s' = cPdusSent s
     \<and> cBeaconsSent s' = cBeaconsSent s \<and> Millies (Timer s') = Millies (Timer s)
     \<and> ((pp = Some 0 \<and> cPduRecvNext s' = cPduRecvNext s + 1)
          \<or> (pp = None \<and> cPduRecvNext s' = cPduRecvNext s))"
proof -
  obtain t0 s0 where g0: "pspStubGetMillies s = (t0, s0)" by fastforce
  from assms g0 obtain rc1 s1 where
    l: "pspStubPduRecv_loop n K t0 cM s0 INF_SUCCESS None = Returns (rc1, pp, s1)"
    and e: "s' = snd (pspStubGetMillies s1)"
    by (auto simp: pspStubPduRecv_def split: result.splits prod.splits)
  from millies_frame [OF g0] have s0: "s0 = s\<lparr>Timer := (Timer s)\<lparr>cReads := Suc (cReads (Timer s))\<rparr>\<rparr>"
    by simp
  from loop_frame [OF l] show ?thesis
    by (auto simp: e s0 pspStubGetMillies_def)
qed

lemma recv_returns:
  assumes "cM \<noteq> PSP_SERIAL_STUB_INDEFINITE_WAIT"
    and "\<exists>k < n. cM \<le> Millies (Timer s) (Suc (cReads (Timer s)) + k) - Millies (Timer s) (cReads (Timer s))"
  shows "\<exists>r. pspStubPduRecv n K s cM = Returns r"
proof -
  obtain t0 s0 where g0: "pspStubGetMillies s = (t0, s0)" by fastforce
  from millies_frame [OF g0] have t0: "t0 = Millies (Timer s) (cReads (Timer s))"
    and s0: "s0 = s\<lparr>Timer := (Timer s)\<lparr>cReads := Suc (cReads (Timer s))\<rparr>\<rparr>"
    by simp_all
  have "\<exists>k < n. cM \<le> Millies (Timer s0) (cReads (Timer s0) + k) - t0"
    using assms(2) by (simp add: s0 t0)
  from loop_returns [OF assms(1) this, of K INF_SUCCESS None]
  show ?thesis
    by (auto simp: pspStubPduRecv_def g0 split: prod.splits)
qed

lemma hdr_validate_iff:
  "pspStubPduHdrValidate K pThis pHdr \<noteq> 0 \<longleftrightarrow>
     (u32Magic pHdr \<noteq> PSP_SERIAL_EXT_2_PSP_PDU_START_MAGIC K
      \<or> unat (cbPdu pHdr) > SZ_4K - sizeof_PSPSERIALPDUHDR - sizeof_PSPSERIALPDUFOOTER
      \<or> enmRrnId pHdr < PSPSERIALPDURRNID_REQUEST_FIRST K
      \<or> enmRrnId pHdr \<ge> PSPSERIALPDURRNID_REQUEST_INVALID_FIRST K
      \<or> cPdus pHdr \<noteq> cPduRecvNext pThis
      \<or> ucast (idCcd pHdr) \<ge> cCcds pThis)"
  by (simp add: pspStubPduHdrValidate_def)

lemma advance_reject:
  assumes "enmPduRecvState pThis = PSPSERIALPDURECVSTATE_HDR"
    and "pspStubPduHdrValidate K pThis (PduHdr_at (abPdu pThis) 0) \<noteq> 0"
  shows "pspStubPduRecvAdvance K pThis =
     (INF_SUCCESS, None, pThis\<lparr>enmPduRecvState := PSPSERIALPDURECVSTATE_HDR,
                               cbPduRecvLeft := 24, offPduRecv := 0\<rparr>)"
  using assms
  by (simp add: pspStubPduRecvAdvance_def Let_def pspStubPduRecvReset_def sizeof_PSPSERIALPDUHDR_def)

text \<open>
  Claim C6 (header validation and receive sequencing). \<^verbatim>\<open>pspStubPduHdrValidate\<close> rejects a
  header exactly when its start magic is not the EXT-to-PSP start magic, or its payload
  length exceeds 4 KiB minus the header and footer sizes, or its tag is below
  \<^verbatim>\<open>REQUEST_FIRST\<close> or not below \<^verbatim>\<open>REQUEST_INVALID_FIRST\<close>, or its counter differs from
  \<^verbatim>\<open>cPduRecvNext\<close>, or its unit id is not below \<^verbatim>\<open>cCcds\<close>. When the parser rejects a completed
  header, \<^verbatim>\<open>pspStubPduRecvAdvance\<close> changes nothing but the parser state, which goes back to
  the header state with 24 bytes left at offset 0: it hands back no PDU, writes nothing to
  the line and keeps \<^verbatim>\<open>cPduRecvNext\<close>. \<^verbatim>\<open>pspStubPduRecvAdvance\<close> never touches the line, and
  it advances \<^verbatim>\<open>cPduRecvNext\<close> (by one) exactly in the footer state when
  \<^verbatim>\<open>pspStubPduValidate\<close> accepts, when it also hands back the PDU. A whole call of
  \<^verbatim>\<open>pspStubPduRecv\<close> that returns writes nothing to the line, and has advanced
  \<^verbatim>\<open>cPduRecvNext\<close> by one if it hands back a PDU and not at all otherwise.
\<close>

theorem pspStubPduHdrValidate_rejects:
  "(pspStubPduHdrValidate K pThis pHdr \<noteq> 0 \<longleftrightarrow>
      (u32Magic pHdr \<noteq> PSP_SERIAL_EXT_2_PSP_PDU_START_MAGIC K
       \<or> unat (cbPdu pHdr) > 4096 - 24 - 8
       \<or> enmRrnId pHdr < PSPSERIALPDURRNID_REQUEST_FIRST K
       \<or> enmRrnId pHdr \<ge> PSPSERIALPDURRNID_REQUEST_INVALID_FIRST K
       \<or> cPdus pHdr \<noteq> cPduRecvNext pThis
       \<or> ucast (idCcd pHdr) \<ge> cCcds pThis))
   \<and> (enmPduRecvState pThis = PSPSERIALPDURECVSTATE_HDR
         \<and> pspStubPduHdrValidate K pThis (PduHdr_at (abPdu pThis) 0) \<noteq> 0 \<longrightarrow>
        pspStubPduRecvAdvance K pThis =
          (INF_SUCCESS, None, pThis\<lparr>enmPduRecvState := PSPSERIALPDURECVSTATE_HDR,
                                    cbPduRecvLeft := 24, offPduRecv := 0\<rparr>))
   \<and> (pspStubPduRecvAdvance K pThis = (rc, pp, s') \<longrightarrow>
        Uart s' = Uart pThis
        \<and> (if enmPduRecvState pThis = PSPSERIALPDURECVSTATE_FOOTER \<and> pspStubPduValidate K pThis 0 = 0
            then cPduRecvNext s' = cPduRecvNext pThis + 1 \<and> pp = Some 0 \<and> rc = 0
            else cPduRecvNext s' = cPduRecvNext pThis \<and> pp = None))
   \<and> (pspStubPduRecv n K pThis cM = Returns (rc, pp, s') \<longrightarrow>
        TxLine (Uart s') = TxLine (Uart pThis)
        \<and> ((pp = Some 0 \<and> cPduRecvNext s' = cPduRecvNext pThis + 1)
             \<or> (pp = None \<and> cPduRecvNext s' = cPduRecvNext pThis)))"
proof -
  have a: "pspStubPduHdrValidate K pThis pHdr \<noteq> 0 \<longleftrightarrow>
      (u32Magic pHdr \<noteq> PSP_SERIAL_EXT_2_PSP_PDU_START_MAGIC K
       \<or> unat (cbPdu pHdr) > 4096 - 24 - 8
       \<or> enmRrnId pHdr < PSPSERIALPDURRNID_REQUEST_FIRST K
       \<or> enmRrnId pHdr \<ge> PSPSERIALPDURRNID_REQUEST_INVALID_FIRST K
       \<or> cPdus pHdr \<noteq> cPduRecvNext pThis
       \<or> ucast (idCcd pHdr) \<ge> cCcds pThis)"
    using hdr_validate_iff [of K pThis pHdr]
    by (simp only: SZ_4K_def sizeof_PSPSERIALPDUHDR_def sizeof_PSPSERIALPDUFOOTER_def)
  have c: "Uart s' = Uart pThis
        \<and> (if enmPduRecvState pThis = PSPSERIALPDURECVSTATE_FOOTER \<and> pspStubPduValidate K pThis 0 = 0
            then cPduRecvNext s' = cPduRecvNext pThis + 1 \<and> pp = Some 0 \<and> rc = 0
            else cPduRecvNext s' = cPduRecvNext pThis \<and> pp = None)"
    if "pspStubPduRecvAdvance K pThis = (rc, pp, s')"
    using that
    by (auto simp: pspStubPduRecvAdvance_def Let_def split: PSPSERIALPDURECVSTATE.splits if_splits)
  have d: "TxLine (Uart s') = TxLine (Uart pThis)
        \<and> ((pp = Some 0 \<and> cPduRecvNext s' = cPduRecvNext pThis + 1)
             \<or> (pp = None \<and> cPduRecvNext s' = cPduRecvNext pThis))"
    if "pspStubPduRecv n K pThis cM = Returns (rc, pp, s')"
    using recv_frame [OF that] by blast
  show ?thesis
    using a advance_reject c d by blast
qed

theorem pspStubPduHdrValidate_rejects_witness:
  "pspStubPduHdrValidate K0
      ((boot_state [] 0)\<lparr>abPdu := buf_write (\<lambda>i. 0) 0 (ExtPdu K0 7 (PSPSERIALPDURRNID_REQUEST_CONNECT K0) []),
                          offPduRecv := 24, cbPduRecvLeft := 0\<rparr>)
      (PduHdr_at (buf_write (\<lambda>i. 0) 0 (ExtPdu K0 7 (PSPSERIALPDURRNID_REQUEST_CONNECT K0) [])) 0) \<noteq> 0
   \<and> pspStubPduRecvAdvance K0
      ((boot_state [] 0)\<lparr>abPdu := buf_write (\<lambda>i. 0) 0 (ExtPdu K0 7 (PSPSERIALPDURRNID_REQUEST_CONNECT K0) []),
                          offPduRecv := 24, cbPduRecvLeft := 0\<rparr>)
     = (INF_SUCCESS, None,
        (boot_state [] 0)\<lparr>abPdu := buf_write (\<lambda>i. 0) 0 (ExtPdu K0 7 (PSPSERIALPDURRNID_REQUEST_CONNECT K0) []),
                          offPduRecv := 24, cbPduRecvLeft := 0\<rparr>
          \<lparr>enmPduRecvState := PSPSERIALPDURECVSTATE_HDR, cbPduRecvLeft := 24, offPduRecv := 0\<rparr>)
   \<and> (case pspStubPduRecv 6 K0
             ((boot_state (ExtPdu K0 7 (PSPSERIALPDURRNID_REQUEST_CONNECT K0) []) 0)
                \<lparr>Timer := clock_ticking 0 400\<rparr>) 1000 of
         Returns (rc, pp, s') \<Rightarrow>
           pp = None \<and> cPduRecvNext s' = 1 \<and> TxLine (Uart s') = []
       | _ \<Rightarrow> False)
   \<and> (case pspStubPduRecv 6 K0 (boot_state (ExtPdu K0 1 (PSPSERIALPDURRNID_REQUEST_CONNECT K0) []) 0) 1000 of
         Returns (rc, pp, s') \<Rightarrow>
           pp = Some 0 \<and> cPduRecvNext s' = 2 \<and> TxLine (Uart s') = []
       | _ \<Rightarrow> False)"
proof -
  define pT where "pT = (boot_state [] 0)\<lparr>abPdu := buf_write (\<lambda>i. 0) 0
      (ExtPdu K0 7 (PSPSERIALPDURRNID_REQUEST_CONNECT K0) []), offPduRecv := 24, cbPduRecvLeft := 0\<rparr>"
  have st: "enmPduRecvState pT = PSPSERIALPDURECVSTATE_HDR"
    by (simp add: pT_def boot_state_def main_init_def pspStubPduRecvReset_def)
  have ab: "abPdu pT = buf_write (\<lambda>i. 0) 0 (ExtPdu K0 7 (PSPSERIALPDURRNID_REQUEST_CONNECT K0) [])"
    by (simp add: pT_def)
  have v: "pspStubPduHdrValidate K0 pT (PduHdr_at (abPdu pT) 0) \<noteq> 0"
    unfolding pT_def by code_simp
  from pspStubPduHdrValidate_rejects [where K = K0 and pThis = pT] st v
  have a: "pspStubPduRecvAdvance K0 pT =
          (INF_SUCCESS, None, pT\<lparr>enmPduRecvState := PSPSERIALPDURECVSTATE_HDR,
                                 cbPduRecvLeft := 24, offPduRecv := 0\<rparr>)"
    by blast
  define sW where "sW = (boot_state (ExtPdu K0 7 (PSPSERIALPDURRNID_REQUEST_CONNECT K0) []) 0)
                \<lparr>Timer := clock_ticking 0 400\<rparr>"
  have "case pspStubPduRecv 6 K0 sW 1000 of Returns (rc, pp, s') \<Rightarrow> pp = None | _ \<Rightarrow> False"
    unfolding sW_def by code_simp
  then obtain rc s' where r: "pspStubPduRecv 6 K0 sW 1000 = Returns (rc, None, s')"
    by (auto split: result.splits)
  have tx: "TxLine (Uart sW) = []" "cPduRecvNext sW = 1"
    by (simp_all add: sW_def boot_state_def main_init_def pspStubPduRecvReset_def uart_with_def)
  from pspStubPduHdrValidate_rejects [where K = K0 and pThis = sW and n = 6 and cM = 1000
      and rc = rc and pp = None and s' = s'] r tx
  have b: "cPduRecvNext s' = 1 \<and> TxLine (Uart s') = []"
    by simp
  define sG where "sG = boot_state (ExtPdu K0 1 (PSPSERIALPDURRNID_REQUEST_CONNECT K0) []) 0"
  have "case pspStubPduRecv 6 K0 sG 1000 of Returns (rc, pp, s') \<Rightarrow> pp = Some 0 | _ \<Rightarrow> False"
    unfolding sG_def by code_simp
  then obtain rc2 s2 where r2: "pspStubPduRecv 6 K0 sG 1000 = Returns (rc2, Some 0, s2)"
    by (auto split: result.splits)
  have tx2: "TxLine (Uart sG) = []" "cPduRecvNext sG = 1"
    by (simp_all add: sG_def boot_state_def main_init_def pspStubPduRecvReset_def uart_with_def)
  from pspStubPduHdrValidate_rejects [where K = K0 and pThis = sG and n = 6 and cM = 1000
      and rc = rc2 and pp = "Some 0" and s' = s2] r2 tx2
  have c: "cPduRecvNext s2 = 2 \<and> TxLine (Uart s2) = []"
    by simp
  show ?thesis
    using v a b c unfolding ab
    unfolding pT_def sW_def [symmetric] sG_def [symmetric] by (simp add: r r2)
qed

section \<open>Properties of the session control\<close>

lemma counters_nat:
  assumes "cPdusSent pThis = 0" "length reqs < 2 ^ 32"
  shows "map unat (pspStubPduSend_counters K pThis reqs) = [1 ..< Suc (length reqs)]"
proof -
  have "unat (of_nat k :: u32) = k" if "k \<in> set [1 ..< Suc (length reqs)]" for k
  proof -
    from that have "k < Suc (length reqs)" by (simp del: upt_Suc)
    with assms(2) have "k < 2 ^ 32" by linarith
    then show ?thesis by (simp add: unat_of_nat)
  qed
  then have "map (\<lambda>k. unat (of_nat k :: u32)) [1 ..< Suc (length reqs)] = [1 ..< Suc (length reqs)]"
    by (intro map_idI) blast
  then show ?thesis
    by (simp add: counters_eq assms(1) o_def)
qed

lemma send_fConnected:
  "fConnected (snd (pspStubPduSend K pThis rc idc tag pv pl)) = fConnected pThis"
  by (subst send_state) simp

lemma send_quiet:
  assumes "WrStatus (Uart pThis) = []"
  shows "fst (pspStubPduSend K pThis rc idc tag pv pl) = 0"
  using assms
  by (simp add: pspStubPduSend_def pspStubPduBuild_def pspStubGetMillies_def PSPUartWrite_def
      Let_def split: prod.splits)

lemma send_fails:
  assumes "WrStatus (Uart pThis) = r # rs" "r \<noteq> 0"
  shows "fst (pspStubPduSend K pThis rc idc tag pv pl) = r"
  using assms
  by (simp add: pspStubPduSend_def pspStubPduBuild_def pspStubGetMillies_def PSPUartWrite_def
      Let_def split: prod.splits)

lemma hdr_bytes_counter:
  "take 4 (drop 8 (PduHdr_bytes h @ rest)) = le32 (cPdus h)"
  by (simp add: PduHdr_bytes_def PduHdr_ab_def le32_def le16_def)

lemma check_connection_connect:
  assumes r: "pspStubPduRecv n K pThis cM = Returns (INF_SUCCESS, Some p, s1)"
    and t: "enmRrnId (PduHdr_at (abPdu s1) p) = PSPSERIALPDURRNID_REQUEST_CONNECT K"
    and Resp: "Resp = le32 (of_nat SZ_4K) @ le32 (of_nat (16 * SZ_1K)) @ le32 (pabScratch s1)
                 @ le32 1 @ le32 1 @ le32 0"
    and snd: "pspStubPduSend K (s1\<lparr>cPdusSent := 0\<rparr>) INF_SUCCESS 0
               (PSPSERIALPDURRNID_RESPONSE_CONNECT K) True Resp = (rc1, s3)"
  shows "pspStubCheckConnection n K pThis cM
           = Returns (INF_SUCCESS, if rc1 = 0 then s3\<lparr>fConnected := True\<rparr> else s3)"
  using snd unfolding Resp by (simp add: pspStubCheckConnection_def r t Let_def)

text \<open>
  Claim C5 (counter of the sent PDUs). \<^verbatim>\<open>pspStubPduSend\<close> stamps the pre-incremented
  \<^verbatim>\<open>cPdusSent\<close> into the header it builds and leaves \<^verbatim>\<open>cPdusSent\<close> one higher, so the
  counters of any run of sends are the value of \<^verbatim>\<open>cPdusSent\<close> before the run plus 1, 2, 3,
  ... in order, in 32-bit arithmetic; from \<^verbatim>\<open>cPdusSent = 0\<close> and for fewer than \<open>2^32\<close> sends
  they are the numbers 1, 2, 3, ... themselves, so there is no gap and no repeat. When
  \<^verbatim>\<open>pspStubCheckConnection\<close> receives a CONNECT request it resets \<^verbatim>\<open>cPdusSent\<close> to 0 before
  it sends: the CONNECT response carries the counter 1, \<^verbatim>\<open>cPdusSent\<close> is 1 afterwards (so
  the next PDU carries 2), and when the stub newly counts as connected the response is on
  the line after what was there before.
\<close>

theorem pspStubPduSend_counter:
  "cPdus (fst (pspStubPduBuild K pThis rc idc tag pl)) = cPdusSent pThis + 1
   \<and> cPdusSent (snd (pspStubPduSend K pThis rc idc tag pv pl)) = cPdusSent pThis + 1
   \<and> pspStubPduSend_counters K pThis reqs
        = map (\<lambda>k. cPdusSent pThis + of_nat k) [1 ..< Suc (length reqs)]
   \<and> (cPdusSent pThis = 0 \<and> length reqs < 2 ^ 32 \<longrightarrow>
        map unat (pspStubPduSend_counters K pThis reqs) = [1 ..< Suc (length reqs)])
   \<and> (pspStubPduRecv n K pThis cM = Returns (INF_SUCCESS, Some p, s1)
        \<and> enmRrnId (PduHdr_at (abPdu s1) p) = PSPSERIALPDURRNID_REQUEST_CONNECT K
        \<and> Resp = le32 (of_nat SZ_4K) @ le32 (of_nat (16 * SZ_1K)) @ le32 (pabScratch s1)
                   @ le32 1 @ le32 1 @ le32 0
        \<and> pspStubCheckConnection n K pThis cM = Returns (rc', s') \<longrightarrow>
        cPdus (fst (pspStubPduBuild K (s1\<lparr>cPdusSent := 0\<rparr>) INF_SUCCESS 0
                 (PSPSERIALPDURRNID_RESPONSE_CONNECT K) Resp)) = 1
        \<and> cPdusSent s' = 1
        \<and> (fConnected s' \<and> \<not> fConnected pThis \<longrightarrow>
             TxLine (Uart s') = TxLine (Uart pThis)
               @ PduHdr_bytes (fst (pspStubPduBuild K (s1\<lparr>cPdusSent := 0\<rparr>) INF_SUCCESS 0
                    (PSPSERIALPDURRNID_RESPONSE_CONNECT K) Resp))
               @ Resp
               @ PduFooter_bytes (fst (snd (pspStubPduBuild K (s1\<lparr>cPdusSent := 0\<rparr>) INF_SUCCESS 0
                    (PSPSERIALPDURRNID_RESPONSE_CONNECT K) Resp)))))"
proof -
  have conn: "cPdus (fst (pspStubPduBuild K (s1\<lparr>cPdusSent := 0\<rparr>) INF_SUCCESS 0
                 (PSPSERIALPDURRNID_RESPONSE_CONNECT K) Resp)) = 1
        \<and> cPdusSent s' = 1
        \<and> (fConnected s' \<and> \<not> fConnected pThis \<longrightarrow>
             TxLine (Uart s') = TxLine (Uart pThis)
               @ PduHdr_bytes (fst (pspStubPduBuild K (s1\<lparr>cPdusSent := 0\<rparr>) INF_SUCCESS 0
                    (PSPSERIALPDURRNID_RESPONSE_CONNECT K) Resp))
               @ Resp
               @ PduFooter_bytes (fst (snd (pspStubPduBuild K (s1\<lparr>cPdusSent := 0\<rparr>) INF_SUCCESS 0
                    (PSPSERIALPDURRNID_RESPONSE_CONNECT K) Resp))))"
    if r: "pspStubPduRecv n K pThis cM = Returns (INF_SUCCESS, Some p, s1)"
      and t: "enmRrnId (PduHdr_at (abPdu s1) p) = PSPSERIALPDURRNID_REQUEST_CONNECT K"
      and Resp: "Resp = le32 (of_nat SZ_4K) @ le32 (of_nat (16 * SZ_1K)) @ le32 (pabScratch s1)
                   @ le32 1 @ le32 1 @ le32 0"
      and c: "pspStubCheckConnection n K pThis cM = Returns (rc', s')"
  proof -
    let ?s2 = "s1\<lparr>cPdusSent := 0\<rparr>"
    obtain rc1 s3 where sd: "pspStubPduSend K ?s2 INF_SUCCESS 0
               (PSPSERIALPDURRNID_RESPONSE_CONNECT K) True Resp = (rc1, s3)" by fastforce
    obtain h f s2' where b: "pspStubPduBuild K ?s2 INF_SUCCESS 0
               (PSPSERIALPDURRNID_RESPONSE_CONNECT K) Resp = (h, f, s2')"
      using prod_cases3 by blast
    from check_connection_connect [OF r t Resp sd] c
    have s': "s' = (if rc1 = 0 then s3\<lparr>fConnected := True\<rparr> else s3)" by simp
    have c3: "cPdusSent s3 = 1"
      using send_counter [of K ?s2 INF_SUCCESS 0 "PSPSERIALPDURRNID_RESPONSE_CONNECT K" True Resp]
      by (simp add: sd)
    have f3: "fConnected s3 = fConnected pThis"
      using send_fConnected [of K ?s2 INF_SUCCESS 0 "PSPSERIALPDURRNID_RESPONSE_CONNECT K" True Resp]
        recv_frame [OF r]
      by (simp add: sd)
    have tx: "TxLine (Uart s3) = TxLine (Uart pThis) @ PduHdr_bytes h @ Resp @ PduFooter_bytes f"
      if "rc1 = 0"
      using pspStubPduSend_ok [OF b sd that] recv_frame [OF r] by simp
    have h1: "cPdus h = 1"
      using build_counter [of K ?s2 INF_SUCCESS 0 "PSPSERIALPDURRNID_RESPONSE_CONNECT K" Resp]
      by (simp add: b)
    show ?thesis
      using c3 f3 tx h1 by (auto simp: s' b)
  qed
  show ?thesis
    using build_counter send_counter counters_eq counters_nat conn by blast
qed

lemma check_connection_rc:
  "pspStubCheckConnection n K pThis cM = Returns (rc, s') \<Longrightarrow> rc = INF_SUCCESS"
  by (auto simp: pspStubCheckConnection_def Let_def
      split: result.splits prod.splits if_splits option.splits)

lemma check_connection_other:
  assumes "pspStubPduRecv n K pThis cM = Returns (rc1, Some p, s1)"
    and "enmRrnId (PduHdr_at (abPdu s1) p) \<noteq> PSPSERIALPDURRNID_REQUEST_CONNECT K"
  shows "pspStubCheckConnection n K pThis cM = Returns (INF_SUCCESS, s1)"
  using assms by (simp add: pspStubCheckConnection_def)

lemma check_connection_error:
  assumes "pspStubPduRecv n K pThis cM = Returns (rc1, pp, s1)"
    and "rc1 \<noteq> INF_SUCCESS"
  shows "pspStubCheckConnection n K pThis cM = Returns (INF_SUCCESS, s1)"
  using assms by (simp add: pspStubCheckConnection_def)

lemma check_connection_not_Spins:
  assumes "cM \<noteq> PSP_SERIAL_STUB_INDEFINITE_WAIT"
    and "\<exists>k < n. cM \<le> Millies (Timer pThis) (Suc (cReads (Timer pThis)) + k)
                        - Millies (Timer pThis) (cReads (Timer pThis))"
  shows "pspStubCheckConnection n K pThis cM \<noteq> Spins"
proof -
  from recv_returns [OF assms] obtain r where "pspStubPduRecv n K pThis cM = Returns r" by blast
  then show ?thesis
    by (cases r) (simp add: pspStubCheckConnection_def Let_def split: option.splits prod.splits)
qed

text \<open>
  Claim C10 (beacon phase). \<^verbatim>\<open>pspStubCheckConnection\<close> returns \<^verbatim>\<open>INF_SUCCESS\<close> whenever it
  returns. When \<^verbatim>\<open>pspStubPduRecv\<close> hands back a validated PDU whose tag is not the CONNECT
  request, \<^verbatim>\<open>pspStubCheckConnection\<close> returns the state \<^verbatim>\<open>pspStubPduRecv\<close> left: nothing was
  written to the line, \<^verbatim>\<open>fConnected\<close> and \<^verbatim>\<open>cPdusSent\<close> are as before, and \<^verbatim>\<open>cPduRecvNext\<close>
  is one higher (the PDU is consumed). A receive error gives \<^verbatim>\<open>INF_SUCCESS\<close> too, with
  nothing sent and \<^verbatim>\<open>fConnected\<close> unchanged; so does a failed send of the CONNECT response,
  which leaves \<^verbatim>\<open>fConnected\<close> unchanged. So after a beacon that was sent, the beacon loop
  goes round again from the state \<^verbatim>\<open>pspStubCheckConnection\<close> returned, whatever happened in
  it (it leaves the loop there only when \<^verbatim>\<open>fConnected\<close> was set). With a bound other than
  the indefinite one, \<^verbatim>\<open>pspStubCheckConnection\<close> does not poll for ever once one of the
  next \<open>n\<close> clock readings is the bound or more after the first: with fuel \<open>n\<close> it
  returns, or reads the tag through a pointer that \<^verbatim>\<open>pspStubPduRecv\<close> did not set.
\<close>

theorem pspStubCheckConnection_always_success:
  "(pspStubCheckConnection n K pThis cM = Returns (rc, s') \<longrightarrow> rc = INF_SUCCESS)
   \<and> (pspStubPduRecv n K pThis cM = Returns (rc1, Some p, s1)
        \<and> enmRrnId (PduHdr_at (abPdu s1) p) \<noteq> PSPSERIALPDURRNID_REQUEST_CONNECT K \<longrightarrow>
        pspStubCheckConnection n K pThis cM = Returns (INF_SUCCESS, s1)
        \<and> TxLine (Uart s1) = TxLine (Uart pThis) \<and> fConnected s1 = fConnected pThis
        \<and> cPdusSent s1 = cPdusSent pThis \<and> cPduRecvNext s1 = cPduRecvNext pThis + 1)
   \<and> (pspStubPduRecv n K pThis cM = Returns (rc1, pp, s1) \<and> rc1 \<noteq> INF_SUCCESS \<longrightarrow>
        pspStubCheckConnection n K pThis cM = Returns (INF_SUCCESS, s1)
        \<and> TxLine (Uart s1) = TxLine (Uart pThis) \<and> fConnected s1 = fConnected pThis)
   \<and> (pspStubPduRecv n K pThis cM = Returns (INF_SUCCESS, Some p, s1)
        \<and> enmRrnId (PduHdr_at (abPdu s1) p) = PSPSERIALPDURRNID_REQUEST_CONNECT K
        \<and> Resp = le32 (of_nat SZ_4K) @ le32 (of_nat (16 * SZ_1K)) @ le32 (pabScratch s1)
                   @ le32 1 @ le32 1 @ le32 0
        \<and> pspStubPduSend K (s1\<lparr>cPdusSent := 0\<rparr>) INF_SUCCESS 0
              (PSPSERIALPDURRNID_RESPONSE_CONNECT K) True Resp = (rcS, s3)
        \<and> rcS \<noteq> 0 \<longrightarrow>
        pspStubCheckConnection n K pThis cM = Returns (INF_SUCCESS, s3)
        \<and> fConnected s3 = fConnected pThis)
   \<and> (\<not> fConnected pThis
        \<and> pspStubPduSend K (pThis\<lparr>cBeaconsSent := cBeaconsSent pThis + 1\<rparr>) INF_SUCCESS 0
              (PSPSERIALPDURRNID_NOTIFICATION_BEACON K) True (le32 (cBeaconsSent pThis + 1) @ le32 0)
            = (0, s2)
        \<and> pspStubCheckConnection n K s2 1000 = Returns (rc2, s4) \<longrightarrow>
        pspStubMainloop_beacon (Suc n) K pThis 0 = pspStubMainloop_beacon n K s4 0)
   \<and> (cM \<noteq> PSP_SERIAL_STUB_INDEFINITE_WAIT
        \<and> (\<exists>k < n. cM \<le> Millies (Timer pThis) (Suc (cReads (Timer pThis)) + k)
                          - Millies (Timer pThis) (cReads (Timer pThis))) \<longrightarrow>
        pspStubCheckConnection n K pThis cM \<noteq> Spins)"
proof -
  have b: "pspStubCheckConnection n K pThis cM = Returns (INF_SUCCESS, s1)
        \<and> TxLine (Uart s1) = TxLine (Uart pThis) \<and> fConnected s1 = fConnected pThis
        \<and> cPdusSent s1 = cPdusSent pThis \<and> cPduRecvNext s1 = cPduRecvNext pThis + 1"
    if r: "pspStubPduRecv n K pThis cM = Returns (rc1, Some p, s1)"
      and t: "enmRrnId (PduHdr_at (abPdu s1) p) \<noteq> PSPSERIALPDURRNID_REQUEST_CONNECT K"
    using check_connection_other [OF r t] recv_frame [OF r] by simp
  have c: "pspStubCheckConnection n K pThis cM = Returns (INF_SUCCESS, s1)
        \<and> TxLine (Uart s1) = TxLine (Uart pThis) \<and> fConnected s1 = fConnected pThis"
    if r: "pspStubPduRecv n K pThis cM = Returns (rc1, pp, s1)" and e: "rc1 \<noteq> INF_SUCCESS"
    using check_connection_error [OF r e] recv_frame [OF r] by simp
  have d: "pspStubCheckConnection n K pThis cM = Returns (INF_SUCCESS, s3)
        \<and> fConnected s3 = fConnected pThis"
    if r: "pspStubPduRecv n K pThis cM = Returns (INF_SUCCESS, Some p, s1)"
      and t: "enmRrnId (PduHdr_at (abPdu s1) p) = PSPSERIALPDURRNID_REQUEST_CONNECT K"
      and Resp: "Resp = le32 (of_nat SZ_4K) @ le32 (of_nat (16 * SZ_1K)) @ le32 (pabScratch s1)
                   @ le32 1 @ le32 1 @ le32 0"
      and sd: "pspStubPduSend K (s1\<lparr>cPdusSent := 0\<rparr>) INF_SUCCESS 0
              (PSPSERIALPDURRNID_RESPONSE_CONNECT K) True Resp = (rcS, s3)"
      and nz: "rcS \<noteq> 0"
  proof -
    have "fConnected s3 = fConnected s1"
      using send_fConnected [of K "s1\<lparr>cPdusSent := 0\<rparr>" INF_SUCCESS 0
          "PSPSERIALPDURRNID_RESPONSE_CONNECT K" True Resp]
      by (simp add: sd)
    with check_connection_connect [OF r t Resp sd] nz recv_frame [OF r] show ?thesis by simp
  qed
  have e: "pspStubMainloop_beacon (Suc n) K pThis 0 = pspStubMainloop_beacon n K s4 0"
    if "\<not> fConnected pThis"
      and "pspStubPduSend K (pThis\<lparr>cBeaconsSent := cBeaconsSent pThis + 1\<rparr>) INF_SUCCESS 0
              (PSPSERIALPDURRNID_NOTIFICATION_BEACON K) True (le32 (cBeaconsSent pThis + 1) @ le32 0)
            = (0, s2)"
      and cc: "pspStubCheckConnection n K s2 1000 = Returns (rc2, s4)"
    using that check_connection_rc [OF cc] by (simp add: Let_def INF_SUCCESS_def)
  show ?thesis
    using check_connection_rc [of n K pThis cM rc s'] b c d e check_connection_not_Spins [of cM n pThis K]
    by blast
qed

theorem pspStubPduSend_counter_witness:
  "map unat (pspStubPduSend_counters K0 (boot_state [] 0)
       [(0, 0, PSPSERIALPDURRNID_NOTIFICATION_BEACON K0, True, le32 1 @ le32 0),
        (0, 0, PSPSERIALPDURRNID_NOTIFICATION_BEACON K0, True, le32 2 @ le32 0),
        (0, 0, PSPSERIALPDURRNID_NOTIFICATION_LOG_MSG K0, True, [0x68, 0x69])]) = [1, 2, 3]
   \<and> (case pspStubCheckConnection 6 K0
             ((boot_state (ExtPdu K0 1 (PSPSERIALPDURRNID_REQUEST_CONNECT K0) []) 0)
                \<lparr>cPdusSent := 2\<rparr>) 1000 of
         Returns (rc, s') \<Rightarrow> cPdusSent s' = 1 \<and> fConnected s'
           \<and> take 4 (drop 8 (TxLine (Uart s'))) = le32 1
       | _ \<Rightarrow> False)"
proof -
  define reqs :: "(u32 \<times> u32 \<times> u16 \<times> bool \<times> u8 list) list" where
    "reqs = [(0, 0, PSPSERIALPDURRNID_NOTIFICATION_BEACON K0, True, le32 1 @ le32 0),
        (0, 0, PSPSERIALPDURRNID_NOTIFICATION_BEACON K0, True, le32 2 @ le32 0),
        (0, 0, PSPSERIALPDURRNID_NOTIFICATION_LOG_MSG K0, True, [0x68, 0x69])]"
  have z: "cPdusSent (boot_state [] 0) = 0"
    by (simp add: boot_state_def main_init_def pspStubPduRecvReset_def)
  have l: "length reqs < 2 ^ 32" by (simp add: reqs_def)
  have "map unat (pspStubPduSend_counters K0 (boot_state [] 0) reqs) = [1 ..< Suc (length reqs)]"
    by (rule pspStubPduSend_counter [where K = K0 and pThis = "boot_state [] 0" and reqs = reqs,
      THEN conjunct2, THEN conjunct2, THEN conjunct2, THEN conjunct1, THEN mp, OF conjI, OF z l])
  then have a: "map unat (pspStubPduSend_counters K0 (boot_state [] 0) reqs) = [1, 2, 3]"
    by (simp add: reqs_def upt_rec)
  define sC where "sC = (boot_state (ExtPdu K0 1 (PSPSERIALPDURRNID_REQUEST_CONNECT K0) []) 0)
                \<lparr>cPdusSent := 2\<rparr>"
  have i: "TxLine (Uart sC) = []" "\<not> fConnected sC" "WrStatus (Uart sC) = []"
    by (simp_all add: sC_def boot_state_def main_init_def pspStubPduRecvReset_def uart_with_def)
  have "case pspStubPduRecv 6 K0 sC 1000 of
          Returns (rc, pp, s1) \<Rightarrow> rc = INF_SUCCESS \<and> pp = Some 0
            \<and> enmRrnId (PduHdr_at (abPdu s1) 0) = PSPSERIALPDURRNID_REQUEST_CONNECT K0
        | _ \<Rightarrow> False"
    unfolding sC_def by code_simp
  then obtain s1 where r: "pspStubPduRecv 6 K0 sC 1000 = Returns (INF_SUCCESS, Some 0, s1)"
    and t: "enmRrnId (PduHdr_at (abPdu s1) 0) = PSPSERIALPDURRNID_REQUEST_CONNECT K0"
    by (auto split: result.splits)
  define Resp where "Resp = le32 (of_nat SZ_4K) @ le32 (of_nat (16 * SZ_1K)) @ le32 (pabScratch s1)
                   @ le32 1 @ le32 1 @ le32 0"
  obtain rc1 s3 where sd: "pspStubPduSend K0 (s1\<lparr>cPdusSent := 0\<rparr>) INF_SUCCESS 0
               (PSPSERIALPDURRNID_RESPONSE_CONNECT K0) True Resp = (rc1, s3)"
    by fastforce
  have "WrStatus (Uart (s1\<lparr>cPdusSent := 0\<rparr>)) = []"
    using recv_frame [OF r] i by simp
  from send_quiet [OF this, of K0 INF_SUCCESS 0 "PSPSERIALPDURRNID_RESPONSE_CONNECT K0" True Resp]
  have ok: "rc1 = 0" by (simp add: sd)
  have c: "pspStubCheckConnection 6 K0 sC 1000 = Returns (INF_SUCCESS, s3\<lparr>fConnected := True\<rparr>)"
    using check_connection_connect [OF r t Resp_def sd] ok by simp
  note T = pspStubPduSend_counter [where K = K0 and pThis = sC and n = 6 and cM = 1000 and p = 0
      and ?s1.0 = s1 and rc' = INF_SUCCESS
      and s' = "s3\<lparr>fConnected := True\<rparr>" and Resp = Resp,
      THEN conjunct2, THEN conjunct2, THEN conjunct2, THEN conjunct2, THEN mp,
      OF conjI, OF r, OF conjI, OF t, OF conjI, OF Resp_def c]
  have c1: "cPdusSent (s3\<lparr>fConnected := True\<rparr>) = 1"
    using T by (rule conjunct2 [THEN conjunct1])
  have h1: "cPdus (fst (pspStubPduBuild K0 (s1\<lparr>cPdusSent := 0\<rparr>) INF_SUCCESS 0
                 (PSPSERIALPDURRNID_RESPONSE_CONNECT K0) Resp)) = 1"
    using T by (rule conjunct1)
  have "TxLine (Uart (s3\<lparr>fConnected := True\<rparr>)) = TxLine (Uart sC)
               @ PduHdr_bytes (fst (pspStubPduBuild K0 (s1\<lparr>cPdusSent := 0\<rparr>) INF_SUCCESS 0
                    (PSPSERIALPDURRNID_RESPONSE_CONNECT K0) Resp))
               @ Resp
               @ PduFooter_bytes (fst (snd (pspStubPduBuild K0 (s1\<lparr>cPdusSent := 0\<rparr>) INF_SUCCESS 0
                    (PSPSERIALPDURRNID_RESPONSE_CONNECT K0) Resp)))"
    using T [THEN conjunct2, THEN conjunct2] i(2) by simp
  then have tx: "take 4 (drop 8 (TxLine (Uart (s3\<lparr>fConnected := True\<rparr>)))) = le32 1"
    by (simp only: i(1) append_Nil hdr_bytes_counter h1)
  from a c1 tx show ?thesis
    unfolding sC_def [symmetric] reqs_def [symmetric] by (simp add: c)
qed

theorem pspStubCheckConnection_always_success_witness:
  "(case pspStubCheckConnection 6 K0
          (boot_state (ExtPdu K0 1 (PSPSERIALPDURRNID_REQUEST_PSP_MEM_READ K0) (le64 0x50000 @ le32 4)) 0)
          1000 of
      Returns (rc, s') \<Rightarrow>
        rc = INF_SUCCESS \<and> TxLine (Uart s') = [] \<and> \<not> fConnected s' \<and> cPdusSent s' = 0
        \<and> cPduRecvNext s' = 2
    | _ \<Rightarrow> False)
   \<and> (case pspStubCheckConnection 6 K0
          ((boot_state [] 0)\<lparr>Uart := (uart_with [0xde])\<lparr>RdStatus := [7]\<rparr>\<rparr>) 1000 of
        Returns (rc, s') \<Rightarrow> rc = INF_SUCCESS \<and> TxLine (Uart s') = [] \<and> \<not> fConnected s'
      | _ \<Rightarrow> False)
   \<and> (case pspStubCheckConnection 6 K0
          ((boot_state [] 0)\<lparr>Uart := (uart_with (ExtPdu K0 1 (PSPSERIALPDURRNID_REQUEST_CONNECT K0) []))
                                      \<lparr>WrStatus := [9]\<rparr>\<rparr>) 1000 of
        Returns (rc, s') \<Rightarrow> rc = INF_SUCCESS \<and> \<not> fConnected s'
      | _ \<Rightarrow> False)
   \<and> (case pspStubCheckConnection 6 K0
          (snd (pspStubPduSend K0
             ((boot_state (ExtPdu K0 1 (PSPSERIALPDURRNID_REQUEST_PSP_MEM_READ K0)
                   (le64 0x50000 @ le32 4)) 0)\<lparr>cBeaconsSent := 1\<rparr>)
             INF_SUCCESS 0 (PSPSERIALPDURRNID_NOTIFICATION_BEACON K0) True (le32 1 @ le32 0))) 1000 of
        Returns (rc, s4) \<Rightarrow>
          pspStubMainloop_beacon 7 K0
             (boot_state (ExtPdu K0 1 (PSPSERIALPDURRNID_REQUEST_PSP_MEM_READ K0)
                   (le64 0x50000 @ le32 4)) 0) 0
            = pspStubMainloop_beacon 6 K0 s4 0
      | _ \<Rightarrow> False)
   \<and> (\<exists>r. pspStubCheckConnection 4 K0 ((boot_state [] 0)\<lparr>Timer := clock_ticking 0 400\<rparr>) 1000
          = Returns r)"
proof -
  define sB where "sB = boot_state (ExtPdu K0 1 (PSPSERIALPDURRNID_REQUEST_PSP_MEM_READ K0)
      (le64 0x50000 @ le32 4)) 0"
  have "case pspStubPduRecv 6 K0 sB 1000 of
          Returns (rc, pp, s1) \<Rightarrow> pp = Some 0
            \<and> enmRrnId (PduHdr_at (abPdu s1) 0) \<noteq> PSPSERIALPDURRNID_REQUEST_CONNECT K0
        | _ \<Rightarrow> False"
    unfolding sB_def by code_simp
  then obtain rc1 s1 where r: "pspStubPduRecv 6 K0 sB 1000 = Returns (rc1, Some 0, s1)"
    and t: "enmRrnId (PduHdr_at (abPdu s1) 0) \<noteq> PSPSERIALPDURRNID_REQUEST_CONNECT K0"
    by (auto split: result.splits)
  have i: "TxLine (Uart sB) = []" "\<not> fConnected sB" "cPdusSent sB = 0" "cPduRecvNext sB = 1"
    "WrStatus (Uart sB) = []" "cBeaconsSent sB = 0"
    by (simp_all add: sB_def boot_state_def main_init_def pspStubPduRecvReset_def uart_with_def)
  from pspStubCheckConnection_always_success [where K = K0 and pThis = sB and n = 6 and cM = 1000
      and p = 0 and ?s1.0 = s1 and ?rc1.0 = rc1, THEN conjunct2, THEN conjunct1, THEN mp,
      OF conjI, OF r t] i
  have a: "pspStubCheckConnection 6 K0 sB 1000 = Returns (INF_SUCCESS, s1)
        \<and> TxLine (Uart s1) = [] \<and> \<not> fConnected s1
        \<and> cPdusSent s1 = 0 \<and> cPduRecvNext s1 = 2"
    by simp
  define sE where "sE = (boot_state [] 0)\<lparr>Uart := (uart_with [0xde])\<lparr>RdStatus := [7]\<rparr>\<rparr>"
  have "case pspStubPduRecv 6 K0 sE 1000 of
          Returns (rc, pp, s1) \<Rightarrow> rc = 7
        | _ \<Rightarrow> False"
    unfolding sE_def by code_simp
  then obtain ppE sE1 where rE: "pspStubPduRecv 6 K0 sE 1000 = Returns (7, ppE, sE1)"
    by (auto split: result.splits)
  have iE: "TxLine (Uart sE) = []" "\<not> fConnected sE"
    by (simp_all add: sE_def boot_state_def main_init_def pspStubPduRecvReset_def uart_with_def)
  have nzE: "(7 :: u32) \<noteq> INF_SUCCESS" by (simp add: INF_SUCCESS_def)
  from pspStubCheckConnection_always_success [where K = K0 and pThis = sE and n = 6 and cM = 1000
      and pp = ppE and ?s1.0 = sE1 and ?rc1.0 = 7, THEN conjunct2, THEN conjunct2, THEN conjunct1,
      THEN mp, OF conjI, OF rE nzE] iE
  have b: "pspStubCheckConnection 6 K0 sE 1000 = Returns (INF_SUCCESS, sE1)
        \<and> TxLine (Uart sE1) = [] \<and> \<not> fConnected sE1"
    by simp
  define sF where "sF = (boot_state [] 0)\<lparr>Uart := (uart_with (ExtPdu K0 1
      (PSPSERIALPDURRNID_REQUEST_CONNECT K0) []))\<lparr>WrStatus := [9]\<rparr>\<rparr>"
  have "case pspStubPduRecv 6 K0 sF 1000 of
          Returns (rc, pp, s1) \<Rightarrow> rc = INF_SUCCESS \<and> pp = Some 0
            \<and> enmRrnId (PduHdr_at (abPdu s1) 0) = PSPSERIALPDURRNID_REQUEST_CONNECT K0
        | _ \<Rightarrow> False"
    unfolding sF_def by code_simp
  then obtain sF1 where rF: "pspStubPduRecv 6 K0 sF 1000 = Returns (INF_SUCCESS, Some 0, sF1)"
    and tF: "enmRrnId (PduHdr_at (abPdu sF1) 0) = PSPSERIALPDURRNID_REQUEST_CONNECT K0"
    by (auto split: result.splits)
  have iF: "WrStatus (Uart sF) = [9]" "\<not> fConnected sF"
    by (simp_all add: sF_def boot_state_def main_init_def pspStubPduRecvReset_def uart_with_def)
  define Resp where "Resp = le32 (of_nat SZ_4K) @ le32 (of_nat (16 * SZ_1K)) @ le32 (pabScratch sF1)
                   @ le32 1 @ le32 1 @ le32 0"
  obtain rcS sF3 where sd: "pspStubPduSend K0 (sF1\<lparr>cPdusSent := 0\<rparr>) INF_SUCCESS 0
               (PSPSERIALPDURRNID_RESPONSE_CONNECT K0) True Resp = (rcS, sF3)"
    by fastforce
  have "WrStatus (Uart (sF1\<lparr>cPdusSent := 0\<rparr>)) = [9]"
    using recv_frame [OF rF] iF by simp
  from send_fails [OF this, of K0 INF_SUCCESS 0 "PSPSERIALPDURRNID_RESPONSE_CONNECT K0" True Resp]
  have nzS: "rcS \<noteq> 0" by (simp add: sd)
  from pspStubCheckConnection_always_success [where K = K0 and pThis = sF and n = 6 and cM = 1000
      and p = 0 and ?s1.0 = sF1 and Resp = Resp and rcS = rcS and ?s3.0 = sF3,
      THEN conjunct2, THEN conjunct2, THEN conjunct2, THEN conjunct1,
      THEN mp, OF conjI, OF rF, OF conjI, OF tF, OF conjI, OF Resp_def, OF conjI, OF sd nzS] iF
  have c: "pspStubCheckConnection 6 K0 sF 1000 = Returns (INF_SUCCESS, sF3) \<and> \<not> fConnected sF3"
    by simp
  define sG where "sG = snd (pspStubPduSend K0 (sB\<lparr>cBeaconsSent := 1\<rparr>)
             INF_SUCCESS 0 (PSPSERIALPDURRNID_NOTIFICATION_BEACON K0) True (le32 1 @ le32 0))"
  have sendG: "pspStubPduSend K0 (sB\<lparr>cBeaconsSent := cBeaconsSent sB + 1\<rparr>) INF_SUCCESS 0
              (PSPSERIALPDURRNID_NOTIFICATION_BEACON K0) True (le32 (cBeaconsSent sB + 1) @ le32 0)
            = (0, sG)"
    using send_quiet [of "sB\<lparr>cBeaconsSent := 1\<rparr>" K0 INF_SUCCESS 0
        "PSPSERIALPDURRNID_NOTIFICATION_BEACON K0" True "le32 1 @ le32 0"] i
    by (simp add: sG_def prod_eq_iff)
  have "case pspStubCheckConnection 6 K0 sG 1000 of Returns (rc, s4) \<Rightarrow> True | _ \<Rightarrow> False"
    unfolding sG_def sB_def by code_simp
  then obtain rc2 s4 where cG: "pspStubCheckConnection 6 K0 sG 1000 = Returns (rc2, s4)"
    by (auto split: result.splits)
  from pspStubCheckConnection_always_success [where K = K0 and pThis = sB and n = 6
      and ?s2.0 = sG and ?rc2.0 = rc2 and ?s4.0 = s4,
      THEN conjunct2, THEN conjunct2, THEN conjunct2, THEN conjunct2, THEN conjunct1,
      THEN mp, OF conjI, OF i(2), OF conjI, OF sendG cG]
  have d: "pspStubMainloop_beacon 7 K0 sB 0 = pspStubMainloop_beacon 6 K0 s4 0"
    by (simp add: eval_nat_numeral)
  define sT where "sT = (boot_state [] 0)\<lparr>Timer := clock_ticking 0 400\<rparr>"
  have "(1000 :: u32) \<noteq> PSP_SERIAL_STUB_INDEFINITE_WAIT"
    by (simp add: PSP_SERIAL_STUB_INDEFINITE_WAIT_def)
  moreover have "(1000 :: u32) \<le> Millies (Timer sT) (Suc (cReads (Timer sT)) + 2)
                          - Millies (Timer sT) (cReads (Timer sT))"
    by (simp add: sT_def clock_ticking_def)
  then have "\<exists>k < 4. (1000 :: u32) \<le> Millies (Timer sT) (Suc (cReads (Timer sT)) + k)
                          - Millies (Timer sT) (cReads (Timer sT))"
    by (intro exI [of _ 2]) simp
  ultimately have ns: "pspStubCheckConnection 4 K0 sT 1000 \<noteq> Spins"
    by (rule pspStubCheckConnection_always_success [where K = K0 and pThis = sT and n = 4 and cM = 1000,
        THEN conjunct2, THEN conjunct2, THEN conjunct2, THEN conjunct2, THEN conjunct2, THEN mp,
        OF conjI])
  have "case pspStubCheckConnection 4 K0 sT 1000 of Faults \<Rightarrow> False | _ \<Rightarrow> True"
    unfolding sT_def by code_simp
  then have "pspStubCheckConnection 4 K0 sT 1000 \<noteq> Faults"
    by (auto split: result.splits)
  with ns have e: "\<exists>r. pspStubCheckConnection 4 K0 sT 1000 = Returns r"
    by (cases "pspStubCheckConnection 4 K0 sT 1000") simp_all
  show ?thesis
    using a b c d e cG
    unfolding sB_def [symmetric] sE_def [symmetric] sF_def [symmetric] sG_def [symmetric] sT_def [symmetric]
    by simp
qed
section \<open>Runs of the connected stub\<close>

lemma connected_never_returns:
  "pspStubMainloop_connected n K pThis \<noteq> Returns r"
proof (induction n arbitrary: pThis)
  case 0
  then show ?case by simp
next
  case (Suc n)
  show ?case
  proof (cases "pspStubMainloop_iter n K pThis")
    case (Returns x)
    obtain rc s1 where "x = (rc, s1)" by (cases x) auto
    with Returns Suc.IH [of s1] show ?thesis by simp
  qed simp_all
qed

text \<open>
  A read of local memory at address 0 and at address 4, four bytes each. For address 0 the
  payload pointer is \<^verbatim>\<open>NULL\<close>: the response is a header that gives the length 4, and the
  footer, 32 bytes, with a checksum that counts the four bytes at address 0. For address 4
  the four bytes are on the line between header and footer.
\<close>

lemma pspStubPduProcessPspMemXfer_read_address_0:
  "(case pspStubMainloop_iter 5 K0
           ((connected_state (ExtPdu K0 1 (PSPSERIALPDURRNID_REQUEST_PSP_MEM_READ K0)
                               (le64 0 @ le32 4)) 0)
              \<lparr>Mem := (\<lambda>a. if a = 0 then 0xa1 else if a = 1 then 0xb2
                            else if a = 2 then 0xc3 else if a = 3 then 0xd4 else 0)\<rparr>) of
      Returns (rc, s') \<Rightarrow>
        rc = INF_SUCCESS \<and> cPdusSent s' = 1
        \<and> length (TxLine (Uart s')) = 32
        \<and> cbPdu (PduHdr_at (nth (TxLine (Uart s'))) 0) = 4
        \<and> u32ChkSum (PduFooter_at (nth (TxLine (Uart s'))) 24)
            = - chk_add 0 (PduHdr_ab_at (nth (TxLine (Uart s'))) 0 @ [0xa1, 0xb2, 0xc3, 0xd4])
    | _ \<Rightarrow> False)
   \<and> (case pspStubMainloop_iter 5 K0
           ((connected_state (ExtPdu K0 1 (PSPSERIALPDURRNID_REQUEST_PSP_MEM_READ K0)
                               (le64 4 @ le32 4)) 0)
              \<lparr>Mem := (\<lambda>a. if a = 4 then 0xa1 else if a = 5 then 0xb2
                            else if a = 6 then 0xc3 else if a = 7 then 0xd4 else 0)\<rparr>) of
      Returns (rc, s') \<Rightarrow>
        rc = INF_SUCCESS \<and> length (TxLine (Uart s')) = 36
        \<and> take 4 (drop 24 (TxLine (Uart s'))) = [0xa1, 0xb2, 0xc3, 0xd4]
    | _ \<Rightarrow> False)"
  by code_simp

text \<open>
  Claim C1 (one response per accepted request), at a request the code fails. The connected
  stub receives one well-formed \<^verbatim>\<open>PSP_MMIO_READ\<close> request for address \<open>0x03010424\<close> with the
  transfer length 3. The parser accepts the PDU (\<^verbatim>\<open>cPduRecvNext\<close> goes from 1 to 2), the pass
  through the block of the main loop ends with \<^verbatim>\<open>ERR_INVALID_PARAMETER\<close>, and nothing was
  written to the line: no response PDU, and \<^verbatim>\<open>cPdusSent\<close> is still 0.
\<close>

theorem pspStubPduProcess_bad_width_no_response:
  "(case pspStubMainloop_iter 5 K0
           (connected_state (ExtPdu K0 1 (PSPSERIALPDURRNID_REQUEST_PSP_MMIO_READ K0)
                               (le64 0x03010424 @ le32 3)) 0) of
      Returns (rc, s') \<Rightarrow>
        rc = ERR_INVALID_PARAMETER K0 \<and> cPduRecvNext s' = 2
        \<and> TxLine (Uart s') = [] \<and> cPdusSent s' = 0
    | _ \<Rightarrow> False)"
  by code_simp

text \<open>
  Claim C2 (response tags), at a request the code fails. The connected stub receives one
  well-formed \<^verbatim>\<open>PSP_MMIO_READ\<close> request for address \<open>0x03010424\<close> with the transfer length
  4. It is processed with success; the response on the line carries the tag
  \<^verbatim>\<open>PSPSERIALPDURRNID_RESPONSE_PSP_MEM_READ\<close>, which is not the \<^verbatim>\<open>PSP_MMIO\<close> read response
  tag; its unit id is 0.
\<close>

theorem pspStubPduProcessPspMmioXfer_response_tag:
  "(case pspStubMainloop_iter 5 K0
           (connected_state (ExtPdu K0 1 (PSPSERIALPDURRNID_REQUEST_PSP_MMIO_READ K0)
                               (le64 0x03010424 @ le32 4)) 0) of
      Returns (rc, s') \<Rightarrow>
        rc = INF_SUCCESS
        \<and> enmRrnId (PduHdr_at (nth (TxLine (Uart s'))) 0) = PSPSERIALPDURRNID_RESPONSE_PSP_MEM_READ K0
        \<and> enmRrnId (PduHdr_at (nth (TxLine (Uart s'))) 0) \<noteq> PSPSERIALPDURRNID_RESPONSE_PSP_MMIO_READ K0
        \<and> idCcd (PduHdr_at (nth (TxLine (Uart s'))) 0) = 0
    | _ \<Rightarrow> False)"
  by code_simp

text \<open>
  Claim C3 (receive bound), at an input the code fails. The clock stands at 600 ms, a
  complete valid CONNECT request waits in the receive FIFO, the bound is 1000 ms.
  \<^verbatim>\<open>pspStubPduRecv\<close> reads the whole PDU, validates it, advances \<^verbatim>\<open>cPduRecvNext\<close> and hands
  the PDU back, with no time elapsed; and it returns \<^verbatim>\<open>INF_TRY_AGAIN\<close>, because the final test
  adds the start time to the current time (600 + 600 is not below 1000).
\<close>

theorem pspStubPduRecv_try_again_with_pdu:
  "(case pspStubPduRecv 5 K0 (boot_state (ExtPdu K0 1 (PSPSERIALPDURRNID_REQUEST_CONNECT K0) []) 600)
           1000 of
      Returns (rc, pPdu, s') \<Rightarrow>
        rc = INF_TRY_AGAIN K0 \<and> rc \<noteq> INF_SUCCESS \<and> pPdu = Some 0 \<and> cPduRecvNext s' = 2
        \<and> RxFifo (Uart s') = []
    | _ \<Rightarrow> False)"
  by code_simp

text \<open>
  Claim C4 (the connected loop and errors), as the code behaves. The connected loop never
  returns, whatever its passes yield: its block has no exit. In the run shown, the first
  request (a \<^verbatim>\<open>PSP_MMIO_READ\<close> of length 3) makes the first pass end with
  \<^verbatim>\<open>ERR_INVALID_PARAMETER\<close>, a status that is not zero; the loop goes on, the second pass
  answers the second request (a \<^verbatim>\<open>PSP_MEM_READ\<close> of 4 bytes, a response of 36 bytes), and
  with fuel for twelve passes the loop is still polling.
\<close>

theorem pspStubMainloop_connected_no_exit:
  "pspStubMainloop_connected n K pThis \<noteq> Returns r
   \<and> (case pspStubMainloop_iter 5 K0
           (connected_state (ExtPdu K0 1 (PSPSERIALPDURRNID_REQUEST_PSP_MMIO_READ K0)
                               (le64 0x03010424 @ le32 3)
                             @ ExtPdu K0 2 (PSPSERIALPDURRNID_REQUEST_PSP_MEM_READ K0)
                               (le64 0x50000 @ le32 4)) 0) of
         Returns (rc, s1) \<Rightarrow>
           rc = ERR_INVALID_PARAMETER K0 \<and> rc \<noteq> 0
           \<and> (case pspStubMainloop_iter 5 K0 s1 of
                 Returns (rc2, s2) \<Rightarrow> rc2 = 0 \<and> cPdusSent s2 = 1 \<and> length (TxLine (Uart s2)) = 36
               | _ \<Rightarrow> False)
       | _ \<Rightarrow> False)
   \<and> pspStubMainloop_connected 12 K0
           (connected_state (ExtPdu K0 1 (PSPSERIALPDURRNID_REQUEST_PSP_MMIO_READ K0)
                               (le64 0x03010424 @ le32 3)
                             @ ExtPdu K0 2 (PSPSERIALPDURRNID_REQUEST_PSP_MEM_READ K0)
                               (le64 0x50000 @ le32 4)) 0) = Spins"
proof -
  have a: "case pspStubMainloop_iter 5 K0
           (connected_state (ExtPdu K0 1 (PSPSERIALPDURRNID_REQUEST_PSP_MMIO_READ K0)
                               (le64 0x03010424 @ le32 3)
                             @ ExtPdu K0 2 (PSPSERIALPDURRNID_REQUEST_PSP_MEM_READ K0)
                               (le64 0x50000 @ le32 4)) 0) of
         Returns (rc, s1) \<Rightarrow>
           rc = ERR_INVALID_PARAMETER K0 \<and> rc \<noteq> 0
           \<and> (case pspStubMainloop_iter 5 K0 s1 of
                 Returns (rc2, s2) \<Rightarrow> rc2 = 0 \<and> cPdusSent s2 = 1 \<and> length (TxLine (Uart s2)) = 36
               | _ \<Rightarrow> False)
       | _ \<Rightarrow> False"
    by code_simp
  have "case pspStubMainloop_connected 12 K0
           (connected_state (ExtPdu K0 1 (PSPSERIALPDURRNID_REQUEST_PSP_MMIO_READ K0)
                               (le64 0x03010424 @ le32 3)
                             @ ExtPdu K0 2 (PSPSERIALPDURRNID_REQUEST_PSP_MEM_READ K0)
                               (le64 0x50000 @ le32 4)) 0) of Spins \<Rightarrow> True | _ \<Rightarrow> False"
    by code_simp
  then have b: "pspStubMainloop_connected 12 K0
           (connected_state (ExtPdu K0 1 (PSPSERIALPDURRNID_REQUEST_PSP_MMIO_READ K0)
                               (le64 0x03010424 @ le32 3)
                             @ ExtPdu K0 2 (PSPSERIALPDURRNID_REQUEST_PSP_MEM_READ K0)
                               (le64 0x50000 @ le32 4)) 0) = Spins"
    by (simp split: result.splits)
  show ?thesis
    using connected_never_returns a b by blast
qed


end
